theory Spec2Isabelle
  imports Main "HOL-Library.List_Lexorder"
begin

section \<open>Data model of \<open>pycel.excelcompiler\<close>\<close>

text \<open>
  An embedding of \<open>src/pycel/excelcompiler.py\<close>. Python objects that are shared by
  reference (the \<open>_Cell\<close> and \<open>_CellRange\<close> instances, which are at the same time values of
  \<open>cell_map\<close> and nodes of \<open>dep_graph\<close>) live in an explicit object store and are
  named by their index in it. A method of \<open>ExcelCompiler\<close> is a function from the state
  to either an exception or a result together with the new state. A leading underscore of
  a Python name is written as a trailing prime (\<open>_reset\<close> is \<open>reset'\<close>). Python's recursion
  limit is the first argument of every recursive method; exhausting it is the exception
  \<open>RecursionError\<close>.
\<close>

type_synonym address = string
type_synonym ref = nat

datatype val = VNone | VInt int | VStr string | VList "val list" | VRef address

text \<open>
  Python values: \<open>VNone\<close> is \<open>None\<close>, which as a cached value means unset; \<open>VRef\<close> is
  an instance of \<open>AddressRange\<close>; \<open>VList\<close> is a list or tuple.
\<close>

datatype error =
    KeyError address
  | AssertionError
  | ValueError
  | NetworkXError
  | AttributeError
  | TypeError
  | RecursionError
  | RuntimeError
  | FileNotFoundError
  | FormulaError string

text \<open>
  The compiled formula belongs to \<open>pycel.excelformula\<close>. What the compiler uses of it is
  its \<open>python_code\<close>, its \<open>needed_addresses\<close> and its evaluation in the evaluation context,
  which can call back \<open>_evaluate\<close> and \<open>_evaluate_range\<close> any number of times before it
  returns or raises: a tree of such calls.
\<close>

datatype prog =
    Return "val"
  | Raise error
  | EvalCell address "val \<Rightarrow> prog"
  | EvalRange address "val \<Rightarrow> prog"

record formula =
  f_python_code :: string
  f_needed_addresses :: "address list"
  f_eval :: prog

record cell =
  c_address :: address
  c_formula :: "formula option"
  c_value :: "val"
  c_id :: nat

record cell_range =
  r_address :: address
  r_addresses :: "address list list"
  r_value :: "val"

datatype node = Cell cell | CellRange cell_range

fun node_value :: "node \<Rightarrow> val" where
  "node_value (Cell x) = c_value x"
| "node_value (CellRange x) = r_value x"

fun node_set_value :: "val \<Rightarrow> node \<Rightarrow> node" where
  "node_set_value v (Cell x) = Cell (x\<lparr>c_value := v\<rparr>)"
| "node_set_value v (CellRange x) = CellRange (x\<lparr>r_value := v\<rparr>)"

fun node_address :: "node \<Rightarrow> address" where
  "node_address (Cell x) = c_address x"
| "node_address (CellRange x) = r_address x"

fun is_CellRange :: "node \<Rightarrow> bool" where
  "is_CellRange (CellRange x) = True"
| "is_CellRange (Cell x) = False"

text \<open>\<open>cell.formula\<close> of a \<open>_Cell\<close>; a \<open>_CellRange\<close> has no such attribute.\<close>

fun node_formula :: "node \<Rightarrow> formula option" where
  "node_formula (Cell x) = c_formula x"
| "node_formula (CellRange x) = None"

text \<open>The property \<open>_Cell.python_code\<close>: \<open>self.formula and self.formula.python_code\<close>,
  read for its truth value.\<close>

fun python_code :: "cell \<Rightarrow> bool" where
  "python_code x = (case c_formula x of None \<Rightarrow> False | Some f \<Rightarrow> f_python_code f \<noteq> [])"

text \<open>The property \<open>needed_addresses\<close> of both classes; a range needs its flattened
  member addresses.\<close>

fun needed_addresses :: "node \<Rightarrow> address list" where
  "needed_addresses (Cell x) =
     (case c_formula x of None \<Rightarrow> [] | Some f \<Rightarrow> f_needed_addresses f)"
| "needed_addresses (CellRange x) = concat (r_addresses x)"

subsection \<open>The dependency graph\<close>

text \<open>
  \<open>networkx.DiGraph\<close> as the compiler uses it: nodes in insertion order, edges from
  precedent to dependant, without multiplicity. \<open>add_edge\<close> adds missing end points;
  \<open>successors\<close> of an object that is not a node raises \<open>NetworkXError\<close>. The node
  attributes \<open>sheet\<close> and \<open>label\<close>, which only the exporters read, are left out.
\<close>

record digraph =
  nodes :: "ref list"
  edges :: "(ref \<times> ref) list"

definition add_node :: "ref \<Rightarrow> digraph \<Rightarrow> digraph" where
  "add_node r g = (if r \<in> set (nodes g) then g else g\<lparr>nodes := nodes g @ [r]\<rparr>)"

definition add_edge :: "ref \<Rightarrow> ref \<Rightarrow> digraph \<Rightarrow> digraph" where
  "add_edge u v g =
     (let g' = add_node v (add_node u g)
      in if (u, v) \<in> set (edges g') then g' else g'\<lparr>edges := edges g' @ [(u, v)]\<rparr>)"

definition successors :: "digraph \<Rightarrow> ref \<Rightarrow> error + ref list" where
  "successors g r =
     (if r \<in> set (nodes g) then Inr (map snd (filter (\<lambda>e. fst e = r) (edges g)))
      else Inl NetworkXError)"

subsection \<open>The data source\<close>

text \<open>
  \<open>RangeData(address, formulas, values)\<close>: a scalar for a cell, a matrix in row-major
  order for a range. A formula text may be \<open>None\<close>.
\<close>

datatype 'a data = Scalar 'a | Matrix "'a list list"

fun flatten_data :: "'a data \<Rightarrow> 'a list" where
  "flatten_data (Scalar x) = [x]"
| "flatten_data (Matrix m) = concat m"

record range_data =
  rd_address :: address
  rd_formulas :: "string option data"
  rd_values :: "val data"

text \<open>
  \<open>self.excel\<close> is either the reader of the spreadsheet (\<open>ExcelOpxWrapper\<close>, outside
  this module: its \<open>get_range\<close> and the name of its active sheet) or the
  \<open>_CompiledImporter\<close> over the \<open>cell_map\<close> of a loaded text file.
\<close>

datatype excel =
    ExcelOpxWrapper "address \<Rightarrow> range_data" string
  | CompiledImporter "(address \<times> val) list"

text \<open>
  What a text file holds and what \<open>extra_data\<close> holds: a dict from keys to values, where
  the entry \<open>cell_map\<close> is itself a dict from addresses to values. The YAML or JSON text
  of a file is determined by this ordered dict, which stands for it.
\<close>

datatype entry = EVal val | ECellMap "(address \<times> val) list"

type_synonym document = "(string \<times> entry) list"

datatype level = DEBUG | INFO | WARNING

datatype log_arg = AStr string | ANat nat | AVal "val"

datatype log_record = Log level string "log_arg list"

datatype logger = Logger string

record compiler =
  eval_ctx :: "unit option"
  excel :: "excel option"
  filename :: string
  excel_file_md5_digest :: "string option"
  log :: logger
  dep_graph :: digraph
  cell_map :: "(address \<times> ref) list"
  graph_todos :: "ref list option"
  range_todos :: "address list option"
  extra_data :: "document option"
  formula_cells_list :: "address list option"
  files :: "(string \<times> document) list"
  heap :: "ref \<Rightarrow> node"
  next_ref :: nat
  ctr :: nat
  log_records :: "log_record list"

text \<open>
  The first eleven fields are the attributes of the instance (\<open>eval_ctx\<close> is \<open>self.eval\<close>,
  \<open>excel_file_md5_digest\<close> is \<open>self._excel_file_md5_digest\<close>). \<open>cell_map\<close> is a Python
  dict: keys are unique and kept in insertion order. The last five fields are the part
  of the interpreter's state the methods act on: the text files on disk, the object
  store with the next free reference, the class counter \<open>_Cell.ctr\<close>, and the records emitted through the logger
  \<open>pycel\<close>.
\<close>

subsection \<open>The address algebra and the formula compiler\<close>

text \<open>
  \<open>AddressRange\<close> and \<open>AddressCell\<close> (\<open>pycel.excelutil\<close>) and \<open>ExcelFormula\<close> are outside
  this module and are parameters of the model. An address is represented by its
  canonical string \<open>address.address\<close>; \<open>canon\<close> is \<open>AddressRange.create(x).address\<close> of any
  spelling \<open>x\<close>. \<open>compile_formula is_python text\<close> is
  \<open>ExcelFormula(text, formula_is_python_code=is_python)\<close>.
\<close>

record env =
  canon :: "string \<Rightarrow> address"
  is_range :: "address \<Rightarrow> bool"
  is_bounded_range :: "address \<Rightarrow> bool"
  resolve_range :: "address \<Rightarrow> address list list"
  has_sheet :: "address \<Rightarrow> bool"
  with_sheet :: "address \<Rightarrow> string \<Rightarrow> address"
  address_sort_key :: "address \<Rightarrow> nat list"
  compile_formula :: "bool \<Rightarrow> string \<Rightarrow> formula"

section \<open>State and exceptions\<close>

type_synonym 'a M = "compiler \<Rightarrow> error + ('a \<times> compiler)"

text \<open>The combinators are used at other state types too (the local sets of
  \<open>trim_graph\<close>), so they are polymorphic in the state.\<close>

definition return :: "'a \<Rightarrow> 's \<Rightarrow> error + ('a \<times> 's)" where
  "return x c = Inr (x, c)"

definition raise :: "error \<Rightarrow> 's \<Rightarrow> error + ('a \<times> 's)" where
  "raise e c = Inl e"

definition bind ::
  "('s \<Rightarrow> error + ('a \<times> 's)) \<Rightarrow> ('a \<Rightarrow> 's \<Rightarrow> error + ('b \<times> 's)) \<Rightarrow> 's \<Rightarrow> error + ('b \<times> 's)" where
  "bind m f c = (case m c of Inl e \<Rightarrow> Inl e | Inr (x, c') \<Rightarrow> f x c')"

definition seq ::
  "('s \<Rightarrow> error + (unit \<times> 's)) \<Rightarrow> ('s \<Rightarrow> error + ('b \<times> 's)) \<Rightarrow> 's \<Rightarrow> error + ('b \<times> 's)" where
  "seq m k = bind m (\<lambda>_. k)"

text \<open>A computation that reads the state and may raise.\<close>

definition lift :: "('s \<Rightarrow> error + 'a) \<Rightarrow> 's \<Rightarrow> error + ('a \<times> 's)" where
  "lift f c = (case f c of Inl e \<Rightarrow> Inl e | Inr x \<Rightarrow> Inr (x, c))"

definition modify :: "('s \<Rightarrow> 's) \<Rightarrow> 's \<Rightarrow> error + (unit \<times> 's)" where
  "modify f c = Inr ((), f c)"

definition skip :: "'s \<Rightarrow> error + (unit \<times> 's)" where
  "skip c = Inr ((), c)"

text \<open>A \<open>for\<close> loop over a list whose body acts on the state.\<close>

primrec for_each ::
  "'a list \<Rightarrow> ('a \<Rightarrow> 's \<Rightarrow> error + (unit \<times> 's)) \<Rightarrow> 's \<Rightarrow> error + (unit \<times> 's)" where
  "for_each [] f = return ()"
| "for_each (x # xs) f = seq (f x) (for_each xs f)"

text \<open>A generator expression collected into a tuple.\<close>

primrec map_m ::
  "('a \<Rightarrow> 's \<Rightarrow> error + ('b \<times> 's)) \<Rightarrow> 'a list \<Rightarrow> 's \<Rightarrow> error + ('b list \<times> 's)" where
  "map_m f [] = return []"
| "map_m f (x # xs) = bind (f x) (\<lambda>y. bind (map_m f xs) (\<lambda>ys. return (y # ys)))"

definition obj :: "compiler \<Rightarrow> ref \<Rightarrow> node" where
  "obj c r = heap c r"

definition set_obj :: "ref \<Rightarrow> node \<Rightarrow> unit M" where
  "set_obj r x c = Inr ((), c\<lparr>heap := (heap c)(r := x)\<rparr>)"

text \<open>\<open>cell.value = v\<close> on the object \<open>r\<close>.\<close>

definition assign_value :: "ref \<Rightarrow> val \<Rightarrow> unit M" where
  "assign_value r v c = set_obj r (node_set_value v (obj c r)) c"

definition new_obj :: "node \<Rightarrow> ref M" where
  "new_obj x c =
     Inr (next_ref c, c\<lparr>heap := (heap c)(next_ref c := x), next_ref := Suc (next_ref c)\<rparr>)"

definition log_call :: "level \<Rightarrow> string \<Rightarrow> log_arg list \<Rightarrow> unit M" where
  "log_call l fmt args c = Inr ((), c\<lparr>log_records := log_records c @ [Log l fmt args]\<rparr>)"

text \<open>\<open>self.cell_map[address]\<close>, \<open>self.cell_map.get(address)\<close> and
  \<open>address in self.cell_map\<close>.\<close>

definition cell_map_get :: "compiler \<Rightarrow> address \<Rightarrow> ref option" where
  "cell_map_get c a = map_of (cell_map c) a"

definition cell_map_item :: "address \<Rightarrow> ref M" where
  "cell_map_item a c =
     (case cell_map_get c a of None \<Rightarrow> Inl (KeyError a) | Some r \<Rightarrow> Inr (r, c))"

definition in_cell_map :: "compiler \<Rightarrow> address \<Rightarrow> bool" where
  "in_cell_map c a = (cell_map_get c a \<noteq> None)"

text \<open>\<open>self.cell_map[a] = r\<close>: a new key goes to the end, an old key keeps its place.\<close>

fun dict_set :: "'k \<Rightarrow> 'v \<Rightarrow> ('k \<times> 'v) list \<Rightarrow> ('k \<times> 'v) list" where
  "dict_set k v [] = [(k, v)]"
| "dict_set k v ((k', v') # kvs) =
     (if k = k' then (k, v) # kvs else (k', v') # dict_set k v kvs)"

definition cell_map_set :: "address \<Rightarrow> ref \<Rightarrow> unit M" where
  "cell_map_set a r c = Inr ((), c\<lparr>cell_map := dict_set a r (cell_map c)\<rparr>)"

section \<open>Pickling: \<open>__getstate__\<close> and \<open>__setstate__\<close>\<close>

text \<open>
  \<open>__getstate__\<close> returns a copy of \<open>self.__dict__\<close> in which five entries are \<open>None\<close>;
  in the dict every entry can be \<open>None\<close>, the logger too.
\<close>

record state_dict =
  d_eval :: "unit option"
  d_excel :: "excel option"
  d_filename :: string
  d_excel_file_md5_digest :: "string option"
  d_log :: "logger option"
  d_dep_graph :: digraph
  d_cell_map :: "(address \<times> ref) list"
  d_graph_todos :: "ref list option"
  d_range_todos :: "address list option"
  d_extra_data :: "document option"
  d_formula_cells_list :: "address list option"

definition getstate :: "compiler \<Rightarrow> state_dict" where
  "getstate c =
     \<lparr>d_eval = None, d_excel = None, d_filename = filename c,
      d_excel_file_md5_digest = excel_file_md5_digest c, d_log = None,
      d_dep_graph = dep_graph c, d_cell_map = cell_map c,
      d_graph_todos = None, d_range_todos = None,
      d_extra_data = extra_data c, d_formula_cells_list = formula_cells_list c\<rparr>"

text \<open>
  \<open>__setstate__\<close> on the object pickle has just allocated: the dict becomes the
  attributes, then \<open>self.log\<close> is the logger \<open>pycel\<close>. The objects the dict refers to are
  those of the store \<open>w\<close> the pickle was read into.
\<close>

definition setstate :: "compiler \<Rightarrow> state_dict \<Rightarrow> compiler" where
  "setstate w d =
     w\<lparr>eval_ctx := d_eval d, excel := d_excel d, filename := d_filename d,
       excel_file_md5_digest := d_excel_file_md5_digest d,
       dep_graph := d_dep_graph d, cell_map := d_cell_map d,
       graph_todos := d_graph_todos d, range_todos := d_range_todos d,
       extra_data := d_extra_data d, formula_cells_list := d_formula_cells_list d,
       log := Logger ''pycel''\<rparr>"

section \<open>The invalidator: \<open>set_value\<close> and \<open>_reset\<close>\<close>

fun reset' :: "nat \<Rightarrow> ref \<Rightarrow> unit M" where
  "reset' 0 cell c = Inl RecursionError"
| "reset' (Suc n) cell c =
     (if node_value (obj c cell) = VNone then skip c
      else seq (log_call INFO ''Resetting {}'' [AStr (node_address (obj c cell))])
          (seq (assign_value cell VNone)
          (\<lambda>c. if cell \<in> set (nodes (dep_graph c))
                then bind (lift (\<lambda>c. successors (dep_graph c) cell))
                       (\<lambda>children. for_each children
                          (\<lambda>child_cell c.
                             if node_value (obj c child_cell) \<noteq> VNone
                             then reset' n child_cell c else skip c)) c
                else skip c)) c)"


text \<open>
  Modelled from the spec: \<open>list_like\<close> and \<open>flatten\<close> of \<open>pycel.excelutil\<close>, which are not
  part of this module. "If the target is array-like, it is flattened and zipped against a
  parallel flattening of addresses": a list or tuple is list-like, and flattening removes
  every level of nesting.
\<close>

fun list_like :: "val \<Rightarrow> bool" where
  "list_like (VList xs) = True"
| "list_like v = False"

fun flatten :: "val \<Rightarrow> val list" where
  "flatten (VList xs) = concat (map flatten xs)"
| "flatten v = [v]"

text \<open>The \<open>address\<close> argument of \<open>set_value\<close> and \<open>evaluate\<close>: one address in any
  spelling, or a list or tuple of such arguments.\<close>

datatype address_arg = Addr string | Addrs "address_arg list"

fun flatten_arg :: "address_arg \<Rightarrow> string list" where
  "flatten_arg (Addr a) = [a]"
| "flatten_arg (Addrs xs) = concat (map flatten_arg xs)"

text \<open>The branch of \<open>set_value\<close> for a value that is not list-like.\<close>

definition set_value1 :: "nat \<Rightarrow> env \<Rightarrow> string \<Rightarrow> val \<Rightarrow> unit M" where
  "set_value1 n E address0 v =
     bind (lift (\<lambda>c.
        if in_cell_map c address0 then Inr address0
        else if in_cell_map c (canon E address0) then Inr (canon E address0)
        else Inl AssertionError))
     (\<lambda>address. bind (cell_map_item address)
     (\<lambda>cell_or_range c.
        if node_value (obj c cell_or_range) \<noteq> v
        then seq (\<lambda>c. if node_value (obj c cell_or_range) = VNone
                      then assign_value cell_or_range v c else skip c)
            (seq (reset' n cell_or_range)
                 (assign_value cell_or_range v)) c
        else skip c))"

text \<open>
  \<open>set_value\<close>. For a list-like value the method calls itself on every pair of the
  flattened addresses and values; a flattened value is not list-like, so each of these
  calls is one of \<open>set_value1\<close>. An address of such a call is an \<open>AddressCell\<close> or the
  element of a resolved range, which is never itself a key of \<open>cell_map\<close> and is
  looked up by its canonical string.
\<close>

definition set_value :: "nat \<Rightarrow> env \<Rightarrow> address_arg \<Rightarrow> val \<Rightarrow> unit M" where
  "set_value n E address v =
     (if list_like v then
        (let vs = flatten v;
             addrs = (case address of
                        Addrs xs \<Rightarrow> map (canon E) (flatten_arg address)
                      | Addr a \<Rightarrow> concat (resolve_range E (canon E a)))
         in if length addrs \<noteq> length vs then raise AssertionError
            else for_each (zip addrs vs) (\<lambda>(addr, val). set_value1 n E addr val))
      else (case address of
              Addr a \<Rightarrow> set_value1 n E a v
            | Addrs xs \<Rightarrow> raise TypeError))"


section \<open>The graph builder and the evaluator\<close>

definition REF_START :: string where
  "REF_START = ''=_REF_(\"''"

definition REF_END :: string where
  "REF_END = ''\")''"

definition REF_FORMAT :: "string \<Rightarrow> string" where
  "REF_FORMAT a = REF_START @ a @ REF_END"

definition startswith :: "string \<Rightarrow> string \<Rightarrow> bool" where
  "startswith s p = (take (length p) s = p)"

definition endswith :: "string \<Rightarrow> string \<Rightarrow> bool" where
  "endswith s p = (length p \<le> length s \<and> drop (length s - length p) s = p)"

subsection \<open>\<open>_CompiledImporter\<close>\<close>

definition importer_get_cell :: "(address \<times> val) list \<Rightarrow> address \<Rightarrow> range_data" where
  "importer_get_cell file_cell_map address =
     (case map_of file_cell_map address of
        None \<Rightarrow> \<lparr>rd_address = address, rd_formulas = Scalar (Some []), rd_values = Scalar VNone\<rparr>
      | Some VNone \<Rightarrow>
          \<lparr>rd_address = address, rd_formulas = Scalar (Some []), rd_values = Scalar VNone\<rparr>
      | Some (VStr s) \<Rightarrow>
          (if startswith s ''='' then
             \<lparr>rd_address = address, rd_formulas = Scalar (Some s), rd_values = Scalar VNone\<rparr>
           else
             \<lparr>rd_address = address, rd_formulas = Scalar (Some []), rd_values = Scalar (VStr s)\<rparr>)
      | Some cell_value \<Rightarrow>
          \<lparr>rd_address = address, rd_formulas = Scalar (Some []), rd_values = Scalar cell_value\<rparr>)"

fun scalar_of :: "'a data \<Rightarrow> error + 'a" where
  "scalar_of (Scalar x) = Inr x"
| "scalar_of (Matrix m) = Inl TypeError"

fun importer_get_range ::
  "nat \<Rightarrow> env \<Rightarrow> (address \<times> val) list \<Rightarrow> address \<Rightarrow> error + range_data" where
  "importer_get_range 0 E file_cell_map address = Inl RecursionError"
| "importer_get_range (Suc n) E file_cell_map address =
     (if \<not> is_bounded_range E address then
        (if \<not> is_range E address then Inr (importer_get_cell file_cell_map address)
         else (case rd_formulas (importer_get_cell file_cell_map address) of
                 Scalar (Some formula) \<Rightarrow>
                   if \<not> startswith formula REF_START then Inl AssertionError
                   else if \<not> endswith formula REF_END then Inl AssertionError
                   else importer_get_range n E file_cell_map
                          (canon E (take (length formula - length REF_START - length REF_END)
                                      (drop (length REF_START) formula)))
               | _ \<Rightarrow> Inl AttributeError))
      else
        (let addresses = resolve_range E address;
             cells = map (map (importer_get_cell file_cell_map)) addresses
         in Inr \<lparr>rd_address = address,
                 rd_formulas = Matrix (map (map (\<lambda>c. case rd_formulas c of Scalar f \<Rightarrow> f
                                                         | Matrix m \<Rightarrow> None)) cells),
                 rd_values = Matrix (map (map (\<lambda>c. case rd_values c of Scalar v \<Rightarrow> v
                                                       | Matrix m \<Rightarrow> VNone)) cells)\<rparr>))"

subsection \<open>Access to \<open>self.excel\<close>\<close>

definition excel_get_range :: "nat \<Rightarrow> env \<Rightarrow> address \<Rightarrow> compiler \<Rightarrow> error + range_data" where
  "excel_get_range n E address c =
     (case excel c of
        None \<Rightarrow> Inl AttributeError
      | Some (ExcelOpxWrapper get_range sheet) \<Rightarrow> Inr (get_range address)
      | Some (CompiledImporter file_cell_map) \<Rightarrow> importer_get_range n E file_cell_map address)"

definition get_active_sheet_name :: "compiler \<Rightarrow> error + string" where
  "get_active_sheet_name c =
     (case excel c of
        Some (ExcelOpxWrapper get_range sheet) \<Rightarrow> Inr sheet
      | _ \<Rightarrow> Inl AttributeError)"

subsection \<open>\<open>_Cell\<close> and \<open>_CellRange\<close> construction\<close>

text \<open>
  \<open>_Cell(address, value, formula, excel)\<close>: an empty or missing formula text gives no
  formula; the text is Python code when no spreadsheet stands behind the cell, which is
  so for the importer and for a cell made without the \<open>excel\<close> argument
  (\<open>from_excel = False\<close>). The new object gets the next id of the class counter.
\<close>

definition new_Cell :: "env \<Rightarrow> bool \<Rightarrow> address \<Rightarrow> val \<Rightarrow> string option \<Rightarrow> ref M" where
  "new_Cell E from_excel address v formula_text c =
     (let is_python = (case excel c of
                         Some (ExcelOpxWrapper get_range sheet) \<Rightarrow> \<not> from_excel
                       | _ \<Rightarrow> True);
          formula = (case formula_text of
                       None \<Rightarrow> None
                     | Some text \<Rightarrow> if text = [] then None
                                    else Some (compile_formula E is_python text))
      in new_obj (Cell \<lparr>c_address = address, c_formula = formula, c_value = v,
                        c_id = Suc (ctr c)\<rparr>) (c\<lparr>ctr := Suc (ctr c)\<rparr>))"

definition new_CellRange :: "env \<Rightarrow> range_data \<Rightarrow> ref M" where
  "new_CellRange E d =
     (if \<not> has_sheet E (rd_address d) then raise ValueError
      else new_obj (CellRange \<lparr>r_address = rd_address d,
                                r_addresses = resolve_range E (rd_address d),
                                r_value = VNone\<rparr>))"

subsection \<open>\<open>_make_cells\<close>\<close>

definition add_node_to_graph :: "ref \<Rightarrow> unit M" where
  "add_node_to_graph node =
     seq (modify (\<lambda>c. c\<lparr>dep_graph := add_node node (dep_graph c)\<rparr>))
         (\<lambda>c. case graph_todos c of
                 None \<Rightarrow> Inl AttributeError
               | Some todos \<Rightarrow> Inr ((), c\<lparr>graph_todos := Some (todos @ [node])\<rparr>))"

definition build_cell :: "env \<Rightarrow> range_data \<Rightarrow> ref M" where
  "build_cell E excel_cell =
     bind (lift (\<lambda>c. scalar_of (rd_formulas excel_cell)))
     (\<lambda>f. bind (new_Cell E True (rd_address excel_cell)
                   (case rd_values excel_cell of Scalar v \<Rightarrow> v
                    | Matrix m \<Rightarrow> VList (map VList m)) f)
     (\<lambda>a_cell. seq (cell_map_set (rd_address excel_cell) a_cell) (return a_cell)))"

fun zip3 :: "'a list \<Rightarrow> 'b list \<Rightarrow> 'c list \<Rightarrow> ('a \<times> 'b \<times> 'c) list" where
  "zip3 (x # xs) (y # ys) (z # zs) = (x, y, z) # zip3 xs ys zs"
| "zip3 xs ys zs = []"

text \<open>The loop of \<open>build_range\<close>; \<open>added\<close> is \<open>added_nodes\<close>.\<close>

fun build_range_cells ::
  "env \<Rightarrow> (address \<times> string option \<times> val) list \<Rightarrow> ref list \<Rightarrow> ref list M" where
  "build_range_cells E [] added = return added"
| "build_range_cells E ((cell_address, f, v) # rest) added =
     (\<lambda>c. if is_range E cell_address then Inl AssertionError
          else if \<not> in_cell_map c cell_address \<and> (f, v) \<noteq> (Some [], VNone) then
            bind (new_Cell E True cell_address v f)
              (\<lambda>a_cell. seq (cell_map_set cell_address a_cell)
                             (build_range_cells E rest (added @ [a_cell]))) c
          else build_range_cells E rest added c)"

definition build_range :: "env \<Rightarrow> range_data \<Rightarrow> ref list M" where
  "build_range E excel_range =
     bind (new_CellRange E excel_range)
     (\<lambda>a_range. bind (\<lambda>c. build_range_cells E
                        (zip3 (needed_addresses (obj c a_range))
                              (flatten_data (rd_formulas excel_range))
                              (flatten_data (rd_values excel_range))) [a_range] c)
     (\<lambda>added_nodes. seq (cell_map_set (rd_address excel_range) a_range)
                         (return added_nodes)))"

definition make_cells' :: "nat \<Rightarrow> env \<Rightarrow> address \<Rightarrow> unit M" where
  "make_cells' n E address =
     (\<lambda>c. if in_cell_map c address then Inl AssertionError
      else bind (lift (excel_get_range n E address))
        (\<lambda>excel_data.
           bind (if is_range E address then
                   seq (if rd_address excel_data \<noteq> address then
                          bind (new_Cell E False address VNone
                                  (Some (REF_FORMAT (rd_address excel_data))))
                               (cell_map_set address)
                        else skip)
                  (seq (\<lambda>c. case range_todos c of
                              None \<Rightarrow> Inl AttributeError
                            | Some todos \<Rightarrow>
                                Inr ((), c\<lparr>range_todos := Some (todos @ [rd_address excel_data])\<rparr>))
                       (build_range E excel_data))
                 else bind (build_cell E excel_data) (\<lambda>a_cell. return [a_cell]))
           (\<lambda>new_nodes. for_each new_nodes
              (\<lambda>node c. if is_CellRange (obj c node) \<or> node_formula (obj c node) \<noteq> None
                         then add_node_to_graph node c else skip c))) c)"


subsection \<open>\<open>_evaluate\<close>, \<open>_evaluate_range\<close>, \<open>_gen_graph\<close> and \<open>_process_gen_graph\<close>\<close>

text \<open>Modelled from the spec: the constant \<open>VALUE_ERROR\<close> of \<open>pycel.excelutil\<close>, the
  "domain error sentinel" that replaces a non-scalar result.\<close>

definition VALUE_ERROR :: val where
  "VALUE_ERROR = VStr ''#VALUE!''"

text \<open>The \<open>seed\<close> argument of \<open>_gen_graph\<close>: an address object, a string, an iterable
  of seeds, or anything else.\<close>

datatype seed = SeedAddr address | SeedStr string | SeedIter "seed list" | SeedOther

text \<open>
  The methods call each other, and the evaluation of a formula calls back into them.
  Each method is first written with the methods it calls as a parameter \<open>self\<close>; the
  methods at recursion limit \<open>n + 1\<close> are then these bodies over the methods at limit
  \<open>n\<close>. \<open>drain_graph_todos\<close> is the \<open>while\<close> loop of \<open>_process_gen_graph\<close>.
\<close>

record methods =
  m_evaluate :: "address \<Rightarrow> val M"
  m_evaluate_range :: "address \<Rightarrow> val M"
  m_gen_graph :: "seed \<Rightarrow> bool \<Rightarrow> unit M"
  m_process_gen_graph :: "unit M"
  m_drain_graph_todos :: "unit M"

text \<open>\<open>self.eval(cell.formula)\<close>: the formula runs in the evaluation context built
  from \<open>self._evaluate\<close> and \<open>self._evaluate_range\<close>.\<close>

primrec run_formula :: "methods \<Rightarrow> prog \<Rightarrow> val M" where
  "run_formula self (Return v) = return v"
| "run_formula self (Raise e) = raise e"
| "run_formula self (EvalCell a k) = bind (m_evaluate self a) (\<lambda>v. run_formula self (k v))"
| "run_formula self (EvalRange a k) =
     bind (m_evaluate_range self a) (\<lambda>v. run_formula self (k v))"

definition evaluate_body :: "methods \<Rightarrow> address \<Rightarrow> val M" where
  "evaluate_body self address =
     bind (cell_map_item address)
     (\<lambda>cell. seq
        (\<lambda>c. if node_value (obj c cell) = VNone then
               (case obj c cell of
                  CellRange x \<Rightarrow> bind (m_evaluate_range self (r_address x)) (\<lambda>_. skip) c
                | Cell x \<Rightarrow>
                    (case c_formula x of
                       Some f \<Rightarrow>
                         if python_code x then
                           seq (log_call DEBUG ''Evaluating: {}, {}''
                                  [AStr (c_address x), AStr (f_python_code f)])
                          (seq (modify (\<lambda>c. if eval_ctx c = None
                                            then c\<lparr>eval_ctx := Some ()\<rparr> else c))
                          (bind (run_formula self (f_eval f))
                          (\<lambda>v. seq (log_call INFO ''Cell %s evaluated to %s (%s)''
                                      [AStr (c_address x), AVal v])
                                   (assign_value cell
                                      (if list_like v then VALUE_ERROR else v))))) c
                         else skip c
                     | None \<Rightarrow> skip c))
             else skip c)
        (\<lambda>c. case node_value (obj c cell) of
               VRef a \<Rightarrow> m_evaluate self a c
             | v \<Rightarrow> Inr (v, c)))"

definition evaluate_range_body :: "methods \<Rightarrow> address \<Rightarrow> val M" where
  "evaluate_range_body self address =
     bind (\<lambda>c. case cell_map_get c address of
                 Some r \<Rightarrow> Inr (r, c)
               | None \<Rightarrow>
                   if CHR ''!'' \<notin> set address then Inl AssertionError
                   else seq (m_gen_graph self (SeedStr address) False)
                            (cell_map_item address) c)
     (\<lambda>cell_range. seq
        (\<lambda>c. if node_value (obj c cell_range) = VNone then
               seq (log_call DEBUG ''Evaluating: {}'' [AStr (node_address (obj c cell_range))])
              (bind (lift (\<lambda>c. case obj c cell_range of
                                 CellRange x \<Rightarrow> Inr (r_addresses x)
                               | Cell x \<Rightarrow> Inl AttributeError))
              (\<lambda>addresses.
                 bind (map_m (\<lambda>row. bind (map_m (m_evaluate self) row)
                                       (\<lambda>vs. return (VList vs))) addresses)
                      (\<lambda>data. assign_value cell_range (VList data)))) c
             else skip c)
        (\<lambda>c. Inr (node_value (obj c cell_range), c)))"

text \<open>The part of \<open>_gen_graph\<close> after the seed has become an address object.\<close>

definition gen_graph_address :: "nat \<Rightarrow> methods \<Rightarrow> env \<Rightarrow> address \<Rightarrow> bool \<Rightarrow> unit M" where
  "gen_graph_address n self E a recursed =
     bind (if has_sheet E a then return a
           else bind (lift get_active_sheet_name) (\<lambda>sheet. return (with_sheet E a sheet)))
     (\<lambda>seed c.
        if in_cell_map c seed then skip c
        else seq (make_cells' n E seed)
                 (if \<not> recursed then m_process_gen_graph self else skip) c)"

definition gen_graph_body :: "nat \<Rightarrow> methods \<Rightarrow> env \<Rightarrow> seed \<Rightarrow> bool \<Rightarrow> unit M" where
  "gen_graph_body n self E seed recursed =
     (case seed of
        SeedAddr a \<Rightarrow> gen_graph_address n self E a recursed
      | SeedStr s \<Rightarrow> gen_graph_address n self E (canon E s) recursed
      | SeedIter seeds \<Rightarrow>
          seq (for_each seeds (\<lambda>s. m_gen_graph self s True)) (m_process_gen_graph self)
      | SeedOther \<Rightarrow> raise ValueError)"

definition process_gen_graph_body :: "methods \<Rightarrow> unit M" where
  "process_gen_graph_body self =
     seq (m_drain_graph_todos self)
    (seq (\<lambda>c. case range_todos c of
                None \<Rightarrow> Inl TypeError
              | Some todos \<Rightarrow>
                  for_each (rev todos)
                    (\<lambda>range_todo. bind (m_evaluate_range self range_todo) (\<lambda>_. skip)) c)
    (seq (modify (\<lambda>c. c\<lparr>range_todos := Some []\<rparr>))
         (\<lambda>c. log_call INFO
                ''Graph construction done, %s nodes, %s edges, %s self.cell_map entries''
                [ANat (length (nodes (dep_graph c))), ANat (length (edges (dep_graph c))),
                 ANat (length (cell_map c))] c)))"

definition drain_graph_todos_body :: "methods \<Rightarrow> unit M" where
  "drain_graph_todos_body self c =
     (case graph_todos c of
        None \<Rightarrow> skip c
      | Some todos \<Rightarrow>
          if todos = [] then skip c
          else
            (let dependant = last todos in
             seq (modify (\<lambda>c. c\<lparr>graph_todos := Some (butlast todos)\<rparr>))
            (seq (\<lambda>c. log_call DEBUG ''Handling {}'' [AStr (node_address (obj c dependant))] c)
            (seq (\<lambda>c. for_each (needed_addresses (obj c dependant))
                        (\<lambda>precedent_address.
                           seq (\<lambda>c. if \<not> in_cell_map c precedent_address
                                     then m_gen_graph self (SeedAddr precedent_address) True c
                                     else skip c)
                               (bind (cell_map_item precedent_address)
                                  (\<lambda>precedent. modify (\<lambda>c. c\<lparr>dep_graph :=
                                      add_edge precedent dependant (dep_graph c)\<rparr>)))) c)
                 (m_drain_graph_todos self))) c))"

primrec methods_at :: "nat \<Rightarrow> env \<Rightarrow> methods" where
  "methods_at 0 E =
     \<lparr>m_evaluate = (\<lambda>a. raise RecursionError),
      m_evaluate_range = (\<lambda>a. raise RecursionError),
      m_gen_graph = (\<lambda>s r. raise RecursionError),
      m_process_gen_graph = raise RecursionError,
      m_drain_graph_todos = raise RecursionError\<rparr>"
| "methods_at (Suc n) E =
     \<lparr>m_evaluate = evaluate_body (methods_at n E),
      m_evaluate_range = evaluate_range_body (methods_at n E),
      m_gen_graph = gen_graph_body n (methods_at n E) E,
      m_process_gen_graph = process_gen_graph_body (methods_at n E),
      m_drain_graph_todos = drain_graph_todos_body (methods_at n E)\<rparr>"

definition evaluate' :: "nat \<Rightarrow> env \<Rightarrow> address \<Rightarrow> val M" where
  "evaluate' n E = m_evaluate (methods_at n E)"

definition evaluate_range' :: "nat \<Rightarrow> env \<Rightarrow> address \<Rightarrow> val M" where
  "evaluate_range' n E = m_evaluate_range (methods_at n E)"

definition gen_graph' :: "nat \<Rightarrow> env \<Rightarrow> seed \<Rightarrow> bool \<Rightarrow> unit M" where
  "gen_graph' n E = m_gen_graph (methods_at n E)"

definition process_gen_graph' :: "nat \<Rightarrow> env \<Rightarrow> unit M" where
  "process_gen_graph' n E = m_process_gen_graph (methods_at n E)"


subsection \<open>\<open>evaluate\<close> and \<open>recalculate\<close>\<close>

fun evaluate :: "nat \<Rightarrow> env \<Rightarrow> address_arg \<Rightarrow> val M" where
  "evaluate 0 E address = raise RecursionError"
| "evaluate (Suc n) E (Addrs xs) = bind (map_m (evaluate n E) xs) (\<lambda>vs. return (VList vs))"
| "evaluate (Suc n) E (Addr a) =
     (\<lambda>c. if \<not> in_cell_map c a then
            bind (if has_sheet E (canon E a) then return (canon E a)
                  else bind (lift get_active_sheet_name)
                         (\<lambda>sheet. return (with_sheet E (canon E a) sheet)))
            (\<lambda>address. seq (\<lambda>c. if \<not> in_cell_map c address
                                 then gen_graph' n E (SeedStr address) False c else skip c)
                            (evaluate' n E address)) c
          else evaluate' n E a c)"

text \<open>
  The second loop of \<open>recalculate\<close> iterates over the live dict: when a step has added a
  key, the iterator raises \<open>RuntimeError\<close>.
\<close>

definition recalculate :: "nat \<Rightarrow> env \<Rightarrow> unit M" where
  "recalculate n E =
     seq (\<lambda>c. for_each (map snd (cell_map c))
                (\<lambda>cell c. if is_CellRange (obj c cell) \<or> node_formula (obj c cell) \<noteq> None
                           then assign_value cell VNone c else skip c) c)
         (\<lambda>c. for_each (map snd (cell_map c))
                (\<lambda>cell. seq (\<lambda>c. case obj c cell of
                                   CellRange x \<Rightarrow>
                                     bind (evaluate_range' n E (r_address x)) (\<lambda>_. skip) c
                                 | Cell x \<Rightarrow> bind (evaluate' n E (c_address x)) (\<lambda>_. skip) c)
                             (\<lambda>c'. if length (cell_map c') \<noteq> length (cell_map c)
                                    then Inl RuntimeError else skip c')) c)"

section \<open>The trimmer: \<open>trim_graph\<close>\<close>

text \<open>
  \<open>needed_cells\<close> and \<open>processed_cells\<close> are local sets that the nested functions update in
  place. \<open>walk_dependents\<close> only reads the compiler; as its exception is caught by
  \<open>trim_graph\<close>, it returns the set as it is at the raise together with the exception.
\<close>

fun walk_dependents ::
  "nat \<Rightarrow> compiler \<Rightarrow> ref \<Rightarrow> address list \<Rightarrow> error option \<times> address list"
  and walk_dependents_loop ::
  "nat \<Rightarrow> compiler \<Rightarrow> ref list \<Rightarrow> address list \<Rightarrow> error option \<times> address list"
where
  "walk_dependents 0 c cell needed_cells = (Some RecursionError, needed_cells)"
| "walk_dependents (Suc n) c cell needed_cells =
     (case successors (dep_graph c) cell of
        Inl e \<Rightarrow> (Some e, needed_cells)
      | Inr children \<Rightarrow> walk_dependents_loop n c children needed_cells)"
| "walk_dependents_loop n c [] needed_cells = (None, needed_cells)"
| "walk_dependents_loop n c (child_cell # rest) needed_cells =
     (let child_addr = node_address (obj c child_cell) in
      if child_addr \<notin> set needed_cells then
        (case walk_dependents n c child_cell (List.insert child_addr needed_cells) of
           (None, needed_cells') \<Rightarrow> walk_dependents_loop n c rest needed_cells'
         | (Some e, needed_cells') \<Rightarrow> (Some e, needed_cells'))
      else walk_dependents_loop n c rest needed_cells)"

text \<open>The \<open>try\<close> statement of \<open>trim_graph\<close>: the loop over the inputs ends at the
  first exception; a \<open>NetworkXError\<close> at an input that is also an output is dropped.\<close>

fun walk_inputs ::
  "nat \<Rightarrow> address list \<Rightarrow> address list \<Rightarrow> address list \<Rightarrow> address list M" where
  "walk_inputs n output_addrs [] needed_cells = return needed_cells"
| "walk_inputs n output_addrs (addr # rest) needed_cells =
     (\<lambda>c. case cell_map_get c addr of
            Some cell \<Rightarrow>
              (case walk_dependents n c cell needed_cells of
                 (None, needed_cells') \<Rightarrow> walk_inputs n output_addrs rest needed_cells' c
               | (Some NetworkXError, needed_cells') \<Rightarrow>
                   if addr \<notin> set output_addrs then Inl ValueError
                   else Inr (needed_cells', c)
               | (Some e, needed_cells') \<Rightarrow> Inl e)
          | None \<Rightarrow>
              seq (log_call WARNING ''Address {} not found in cell_map'' [AStr addr])
                  (walk_inputs n output_addrs rest needed_cells) c)"

fun node_strip_formula :: "node \<Rightarrow> node" where
  "node_strip_formula (Cell x) = Cell (x\<lparr>c_formula := None\<rparr>)"
| "node_strip_formula (CellRange x) = CellRange x"

text \<open>\<open>walk_precedents\<close>; the pair is (\<open>needed_cells\<close>, \<open>processed_cells\<close>).\<close>

fun walk_precedents ::
  "nat \<Rightarrow> ref \<Rightarrow> address list \<times> address list \<Rightarrow> (address list \<times> address list) M"
  and walk_precedents_loop ::
  "nat \<Rightarrow> address list \<Rightarrow> address list \<times> address list \<Rightarrow> (address list \<times> address list) M"
where
  "walk_precedents 0 cell sets c = Inl RecursionError"
| "walk_precedents (Suc n) cell sets c =
     walk_precedents_loop n (needed_addresses (obj c cell)) sets c"
| "walk_precedents_loop n [] sets c = Inr (sets, c)"
| "walk_precedents_loop n (child_address # rest) (needed_cells, processed_cells) c =
     (if child_address \<notin> set processed_cells then
        (case cell_map_get c child_address of
           None \<Rightarrow> Inl (KeyError child_address)
         | Some child_cell \<Rightarrow>
             if child_address \<in> set needed_cells \<or> CHR '':'' \<in> set child_address then
               bind (walk_precedents n child_cell
                       (needed_cells, List.insert child_address processed_cells))
                    (walk_precedents_loop n rest) c
             else
               seq (\<lambda>c. set_obj child_cell (node_strip_formula (obj c child_cell)) c)
              (seq (log_call DEBUG ''Trimming {}'' [AStr child_address])
                   (walk_precedents_loop n rest
                      (List.insert child_address needed_cells,
                       List.insert child_address processed_cells))) c)
      else walk_precedents_loop n rest (needed_cells, processed_cells) c)"

text \<open>The loop over the outputs that starts \<open>walk_precedents\<close>.\<close>

fun walk_outputs ::
  "nat \<Rightarrow> address list \<Rightarrow> address list \<times> address list \<Rightarrow> (address list \<times> address list) M" where
  "walk_outputs n [] sets = return sets"
| "walk_outputs n (addr # rest) sets =
     bind (cell_map_item addr)
       (\<lambda>cell. bind (walk_precedents n cell sets) (walk_outputs n rest))"

text \<open>Steps 2 to 5 of \<open>trim_graph\<close>, on the graph that step 1 has built.\<close>

definition trim_built :: "nat \<Rightarrow> address list \<Rightarrow> address list \<Rightarrow> unit M" where
  "trim_built n input_addrs output_addrs =
     bind (walk_inputs n output_addrs input_addrs [])
     (\<lambda>needed_cells.
        bind (walk_outputs n output_addrs
                (fold List.insert output_addrs needed_cells, []))
     (\<lambda>(needed_cells, processed_cells).
        seq (for_each input_addrs
               (\<lambda>addr c. case cell_map_get c addr of
                            Some cell \<Rightarrow>
                              if node_formula (obj c cell) \<noteq> None
                              then log_call INFO ''{} is not a leaf node'' [AStr addr] c
                              else skip c
                          | None \<Rightarrow> skip c))
            (modify (\<lambda>c. c\<lparr>cell_map :=
                filter (\<lambda>(addr, cell). addr \<in> set needed_cells) (cell_map c)\<rparr>))))"

definition trim_graph :: "nat \<Rightarrow> env \<Rightarrow> string list \<Rightarrow> string list \<Rightarrow> unit M" where
  "trim_graph n E input_addrs0 output_addrs0 =
     (let input_addrs = map (canon E) input_addrs0;
          output_addrs = map (canon E) output_addrs0
      in seq (gen_graph' n E (SeedIter (map SeedAddr output_addrs)) False)
             (trim_built n input_addrs output_addrs))"

section \<open>Construction and the text format\<close>

text \<open>
  \<open>ExcelCompiler(excel=excel)\<close>. The new instance lives in the interpreter state of
  \<open>w\<close>; \<open>digest\<close> is the MD5 digest of the spreadsheet file, if there is one.
\<close>

definition init :: "excel \<Rightarrow> string \<Rightarrow> string option \<Rightarrow> compiler \<Rightarrow> compiler" where
  "init xl name digest w =
     w\<lparr>eval_ctx := None, excel := Some xl, filename := name,
       excel_file_md5_digest := digest, log := Logger ''pycel'',
       dep_graph := \<lparr>nodes = [], edges = []\<rparr>, cell_map := [],
       graph_todos := Some [], range_todos := Some [],
       extra_data := None, formula_cells_list := None\<rparr>"

text \<open>The interpreter state before anything has happened.\<close>

definition world0 :: compiler where
  "world0 =
     \<lparr>eval_ctx = None, excel = None, filename = [], excel_file_md5_digest = None,
      log = Logger ''pycel'', dep_graph = \<lparr>nodes = [], edges = []\<rparr>, cell_map = [],
      graph_todos = None, range_todos = None, extra_data = None,
      formula_cells_list = None, files = [],
      heap = (\<lambda>r. CellRange \<lparr>r_address = [], r_addresses = [], r_value = VNone\<rparr>),
      next_ref = 0, ctr = 0, log_records = []\<rparr>"

text \<open>\<open>cell_value\<close> of \<open>_to_text\<close>, for the cells that are serialized (\<open>_Cell.serialize\<close> is
  true, \<open>_CellRange.serialize\<close> is false).\<close>

fun cell_value :: "node \<Rightarrow> val option" where
  "cell_value (Cell x) =
     Some (case c_formula x of
             Some f \<Rightarrow> if f_python_code f \<noteq> [] then VStr (''='' @ f_python_code f)
                       else c_value x
           | None \<Rightarrow> c_value x)"
| "cell_value (CellRange x) = None"

definition serialized_cell_map :: "env \<Rightarrow> compiler \<Rightarrow> (address \<times> val) list" where
  "serialized_cell_map E c =
     sort_key (\<lambda>x. address_sort_key E (fst x))
       (concat (map (\<lambda>(addr, cell). case cell_value (obj c cell) of
                                       Some v \<Rightarrow> [(addr, v)] | None \<Rightarrow> [])
                    (cell_map c)))"

definition hash_val :: "string option \<Rightarrow> val" where
  "hash_val h = (case h of None \<Rightarrow> VNone | Some d \<Rightarrow> VStr d)"

text \<open>
  \<open>_to_text\<close>: the dict \<open>extra_data\<close> (the attribute itself when there is one, so that
  it keeps the key \<open>excel_hash\<close> afterwards) is updated with the hash and the sorted
  cells and written to the file. The result says whether the file has changed.
\<close>

definition to_text' :: "env \<Rightarrow> string \<Rightarrow> bool \<Rightarrow> bool M" where
  "to_text' E filename0 is_json c =
     (let doc0 = (case extra_data c of None \<Rightarrow> [] | Some d \<Rightarrow> d);
          doc = dict_set ''cell_map'' (ECellMap (serialized_cell_map E c))
                  (dict_set ''excel_hash'' (EVal (hash_val (excel_file_md5_digest c))) doc0);
          file = (if filename0 = [] then filename c @ (if is_json then ''.json'' else ''.yml'')
                  else filename0);
          existing = map_of (files c) file
      in Inr (existing = None \<or> existing \<noteq> Some doc,
              c\<lparr>files := dict_set file doc (files c),
                extra_data := (case extra_data c of
                                 None \<Rightarrow> None
                               | Some d \<Rightarrow> Some (filter (\<lambda>kv. fst kv \<noteq> ''cell_map'') doc))\<rparr>))"

text \<open>\<open>filename.split('.')[-1]\<close> and \<open>filename.rsplit('.', maxsplit=1)[0]\<close>.\<close>

definition last_segment :: "string \<Rightarrow> string" where
  "last_segment s = rev (takeWhile (\<lambda>ch. ch \<noteq> CHR ''.'') (rev s))"

definition rsplit_head :: "string \<Rightarrow> string" where
  "rsplit_head s =
     (if CHR ''.'' \<in> set s then rev (tl (dropWhile (\<lambda>ch. ch \<noteq> CHR ''.'') (rev s))) else s)"

text \<open>
  \<open>add_line_numbers\<close> of \<open>_from_text\<close> reads \<open>excel_compiler.cell_map[cell_addr].formula\<close>;
  the line number and file name it stores on the formula are used by debuggers only
  and are not part of the model.
\<close>

definition add_line_numbers :: "address \<Rightarrow> unit M" where
  "add_line_numbers cell_addr =
     bind (cell_map_item cell_addr)
       (\<lambda>cell c. case obj c cell of
                    Cell x \<Rightarrow> skip c
                  | CellRange x \<Rightarrow> Inl AttributeError)"

text \<open>
  \<open>_from_text\<close>, a class method: the new compiler is made in the interpreter state of
  \<open>w\<close> and returned as the new state.
\<close>

definition from_text' :: "nat \<Rightarrow> env \<Rightarrow> string \<Rightarrow> bool \<Rightarrow> compiler \<Rightarrow> error + compiler" where
  "from_text' n E filename0 is_json w =
     (let file = (if \<not> is_json then
                    (if \<not> startswith (last_segment filename0) ''y''
                     then filename0 @ ''.yml'' else filename0)
                  else (if \<not> endswith filename0 ''.json''
                        then filename0 @ ''.json'' else filename0))
      in case map_of (files w) file of
           None \<Rightarrow> Inl FileNotFoundError
         | Some data \<Rightarrow>
            (case map_of data ''cell_map'' of
               Some (ECellMap file_cell_map) \<Rightarrow>
                 (case
                    seq (for_each (filter (\<lambda>a. \<not> is_range E a) (map (canon E \<circ> fst) file_cell_map))
                           (\<lambda>address. seq (make_cells' n E address) (add_line_numbers address)))
                   (seq (for_each (filter (is_range E) (map (canon E \<circ> fst) file_cell_map))
                           (\<lambda>address. seq (make_cells' n E address) (add_line_numbers address)))
                        (process_gen_graph' n E))
                      (init (CompiledImporter file_cell_map) (rsplit_head file) None w)
                  of Inl e \<Rightarrow> Inl e
                   | Inr (u, c) \<Rightarrow>
                       (case map_of data ''excel_hash'' of
                          Some (EVal h) \<Rightarrow>
                            Inr (c\<lparr>excel_file_md5_digest :=
                                      (case h of VStr d \<Rightarrow> Some d | _ \<Rightarrow> None),
                                   extra_data := Some (filter (\<lambda>kv. fst kv \<noteq> ''cell_map''
                                                          \<and> fst kv \<noteq> ''excel_hash'') data),
                                   excel := None\<rparr>)
                        | _ \<Rightarrow> Inl (KeyError ''excel_hash'')))
             | Some (EVal v) \<Rightarrow> Inl TypeError
             | None \<Rightarrow> Inl (KeyError ''cell_map'')))"

section \<open>An example workbook\<close>

text \<open>
  The workbook of the concrete scenario of the specification, with the two formulas of
  the chain left open: sheet \<open>S\<close> holds the literal \<open>va\<close> in \<open>A1\<close>, a formula \<open>g\<close> of \<open>A1\<close>
  in \<open>B1\<close>, a formula \<open>f\<close> of \<open>B1\<close> in \<open>C1\<close>, the unrelated formula \<open>E1 * 2\<close> in \<open>D1\<close> over
  the literal 4 in \<open>E1\<close>, an array constant in \<open>F1\<close>, and in \<open>R1\<close> a formula whose result is
  a reference to \<open>A1\<close>. A second chain has a precedent off the path from the input: \<open>X1\<close>
  is \<open>E1 * 2\<close>, \<open>P1\<close> is \<open>A1 + X1\<close> and \<open>Q1\<close> is \<open>P1 + 1\<close>; in a sum an empty operand
  counts as 0. No formula cell of the workbook comes with a stored value. The address
  algebra is the simplest one that fits: addresses are canonical as written, a range
  has a colon and a sheet is set off by an exclamation mark.
\<close>

definition int_formula :: "string \<Rightarrow> address \<Rightarrow> (int \<Rightarrow> int) \<Rightarrow> formula" where
  "int_formula code a h =
     \<lparr>f_python_code = code, f_needed_addresses = [a],
      f_eval = EvalCell a
                 (\<lambda>v. case v of VInt i \<Rightarrow> Return (VInt (h i)) | _ \<Rightarrow> Return VALUE_ERROR)\<rparr>"

fun add_val :: "val \<Rightarrow> val \<Rightarrow> val" where
  "add_val (VInt i) (VInt j) = VInt (i + j)"
| "add_val (VInt i) VNone = VInt i"
| "add_val VNone (VInt j) = VInt j"
| "add_val VNone VNone = VInt 0"
| "add_val u v = VALUE_ERROR"

definition example_compile :: "(int \<Rightarrow> int) \<Rightarrow> (int \<Rightarrow> int) \<Rightarrow> bool \<Rightarrow> string \<Rightarrow> formula" where
  "example_compile g f is_python text =
     (if text = ''=g(A1)'' then int_formula ''g(S!A1)'' ''S!A1'' g
      else if text = ''=f(B1)'' then int_formula ''f(S!B1)'' ''S!B1'' f
      else if text = ''=E1*2'' then int_formula ''S!E1*2'' ''S!E1'' (\<lambda>i. i * 2)
      else if text = ''={1,2}'' then
        \<lparr>f_python_code = ''(1,2)'', f_needed_addresses = [],
         f_eval = Return (VList [VInt 1, VInt 2])\<rparr>
      else if text = ''=OFFSET(A1,0,0)'' then
        \<lparr>f_python_code = ''_REF_(S!A1)'', f_needed_addresses = [''S!A1''],
         f_eval = Return (VRef ''S!A1'')\<rparr>
      else if text = ''=A1+X1'' then
        \<lparr>f_python_code = ''S!A1+S!X1'', f_needed_addresses = [''S!A1'', ''S!X1''],
         f_eval = EvalCell ''S!A1'' (\<lambda>u. EvalCell ''S!X1'' (\<lambda>v. Return (add_val u v)))\<rparr>
      else if text = ''=P1+1'' then int_formula ''S!P1+1'' ''S!P1'' (\<lambda>i. i + 1)
      else \<lparr>f_python_code = tl text, f_needed_addresses = [],
            f_eval = Raise (FormulaError text)\<rparr>)"

definition example_env :: "(int \<Rightarrow> int) \<Rightarrow> (int \<Rightarrow> int) \<Rightarrow> env" where
  "example_env g f =
     \<lparr>canon = (\<lambda>s. s), is_range = (\<lambda>a. CHR '':'' \<in> set a),
      is_bounded_range = (\<lambda>a. CHR '':'' \<in> set a), resolve_range = (\<lambda>a. [[a]]),
      has_sheet = (\<lambda>a. CHR ''!'' \<in> set a), with_sheet = (\<lambda>a sheet. sheet @ ''!'' @ a),
      address_sort_key = map of_char, compile_formula = example_compile g f\<rparr>"

definition example_sheet :: "int \<Rightarrow> address \<Rightarrow> range_data" where
  "example_sheet va a =
     \<lparr>rd_address = a,
      rd_formulas = Scalar (Some (if a = ''S!B1'' then ''=g(A1)''
                                  else if a = ''S!C1'' then ''=f(B1)''
                                  else if a = ''S!D1'' then ''=E1*2''
                                  else if a = ''S!F1'' then ''={1,2}''
                                  else if a = ''S!R1'' then ''=OFFSET(A1,0,0)''
                                  else if a = ''S!X1'' then ''=E1*2''
                                  else if a = ''S!P1'' then ''=A1+X1''
                                  else if a = ''S!Q1'' then ''=P1+1''
                                  else [])),
      rd_values = Scalar (if a = ''S!A1'' then VInt va
                          else if a = ''S!E1'' then VInt 4 else VNone)\<rparr>"

definition example_compiler :: "int \<Rightarrow> compiler" where
  "example_compiler va =
     init (ExcelOpxWrapper (example_sheet va) ''S'') ''book.xlsx'' None world0"

text \<open>The state a call has left, for a call that has returned.\<close>

definition state_of :: "error + ('a \<times> compiler) \<Rightarrow> compiler" where
  "state_of r = (case r of Inr (x, c) \<Rightarrow> c | Inl e \<Rightarrow> world0)"

definition ten :: nat where
  "ten = Suc (Suc (Suc (Suc (Suc (Suc (Suc (Suc (Suc (Suc 0)))))))))"

text \<open>The graph of the example for the seeds \<open>C1\<close> and \<open>D1\<close>, and the graphs for the
  single seeds \<open>F1\<close> and \<open>R1\<close>.\<close>

definition example_graph :: "(int \<Rightarrow> int) \<Rightarrow> (int \<Rightarrow> int) \<Rightarrow> int \<Rightarrow> compiler" where
  "example_graph g f va =
     state_of (gen_graph' ten (example_env g f)
                 (SeedIter [SeedAddr ''S!C1'', SeedAddr ''S!D1'']) False (example_compiler va))"

definition array_graph :: compiler where
  "array_graph =
     state_of (gen_graph' ten (example_env id id) (SeedAddr ''S!F1'') False (example_compiler 2))"

definition ref_graph :: compiler where
  "ref_graph =
     state_of (gen_graph' ten (example_env id id) (SeedAddr ''S!R1'') False (example_compiler 2))"

text \<open>The graph of the second chain, for the seed \<open>Q1\<close>.\<close>

definition off_path_graph :: compiler where
  "off_path_graph =
     state_of (gen_graph' ten (example_env id id) (SeedAddr ''S!Q1'') False (example_compiler 2))"

text \<open>The graph of the example after \<open>evaluate\<close> of \<open>C1\<close>.\<close>

definition example_evaluated :: "(int \<Rightarrow> int) \<Rightarrow> (int \<Rightarrow> int) \<Rightarrow> int \<Rightarrow> compiler" where
  "example_evaluated g f va =
     state_of (evaluate ten (example_env g f) (Addr ''S!C1'') (example_graph g f va))"

text \<open>The scenario with its numbers: \<open>A1 = 2\<close>, \<open>B1 = A1 * 3\<close>, \<open>C1 = B1 + 1\<close>.\<close>

definition spec_env :: env where
  "spec_env = example_env (\<lambda>i. i * 3) (\<lambda>i. i + 1)"

definition spec_graph :: compiler where
  "spec_graph = example_graph (\<lambda>i. i * 3) (\<lambda>i. i + 1) 2"

text \<open>The scenario after \<open>evaluate\<close> of \<open>C1\<close>: \<open>A1\<close>, \<open>B1\<close> and \<open>C1\<close> hold 2, 6 and 7.\<close>

definition spec_evaluated :: compiler where
  "spec_evaluated = state_of (evaluate ten spec_env (Addr ''S!C1'') spec_graph)"

text \<open>The scenario after \<open>evaluate\<close> of the empty cell \<open>Z9\<close>, which no cell reads: the cell
  is in \<open>cell_map\<close> and is no node of the dependency graph.\<close>

definition spec_with_Z9 :: compiler where
  "spec_with_Z9 = state_of (evaluate ten spec_env (Addr ''S!Z9'') spec_graph)"

section \<open>Notions used in the properties\<close>

text \<open>
  \<open>cached\<close> counts the nodes of the dependency graph that hold a value; it bounds the
  depth of \<open>_reset\<close>. \<open>cleared_only c c'\<close> says that \<open>c'\<close> differs from \<open>c\<close> at most in values
  that have been set to \<open>None\<close> (and in the log); \<open>cascaded c c'\<close> says moreover that every
  node of the graph that has lost its value has no successor with a value left.
\<close>

definition cached :: "compiler \<Rightarrow> nat" where
  "cached c = length (filter (\<lambda>r. node_value (obj c r) \<noteq> VNone) (nodes (dep_graph c)))"

definition cleared_only :: "compiler \<Rightarrow> compiler \<Rightarrow> bool" where
  "cleared_only c c' \<longleftrightarrow>
     dep_graph c' = dep_graph c \<and> cell_map c' = cell_map c \<and>
     (\<forall>r. heap c' r = heap c r \<or> heap c' r = node_set_value VNone (heap c r))"

definition cascaded :: "compiler \<Rightarrow> compiler \<Rightarrow> bool" where
  "cascaded c c' \<longleftrightarrow>
     cleared_only c c' \<and>
     (\<forall>w s. node_value (heap c w) \<noteq> VNone \<and> node_value (heap c' w) = VNone \<and>
            w \<in> set (nodes (dep_graph c)) \<and> (w, s) \<in> set (edges (dep_graph c))
            \<longrightarrow> node_value (heap c' s) = VNone)"

text \<open>
  The edges along which \<open>_reset\<close> descends: from a node of the graph to a successor that
  holds a value. What \<open>_reset\<close> of a cached node \<open>a\<close> clears are the nodes \<open>r\<close> with
  \<open>(a, r)\<close> in the reflexive transitive closure of these edges.
\<close>

definition cached_edges :: "compiler \<Rightarrow> (ref \<times> ref) set" where
  "cached_edges c =
     {(u, v). u \<in> set (nodes (dep_graph c)) \<and> (u, v) \<in> set (edges (dep_graph c))
              \<and> node_value (obj c v) \<noteq> VNone}"

section \<open>Properties\<close>

subsection \<open>Unfolding the model\<close>

lemmas monad_defs = return_def raise_def bind_def seq_def lift_def modify_def skip_def

lemma methods_at_Suc_sel:
  "m_evaluate (methods_at (Suc n) E) = evaluate_body (methods_at n E)"
  "m_evaluate_range (methods_at (Suc n) E) = evaluate_range_body (methods_at n E)"
  "m_gen_graph (methods_at (Suc n) E) = gen_graph_body n (methods_at n E) E"
  "m_process_gen_graph (methods_at (Suc n) E) = process_gen_graph_body (methods_at n E)"
  "m_drain_graph_todos (methods_at (Suc n) E) = drain_graph_todos_body (methods_at n E)"
  by simp_all

lemma methods_at_0_sel:
  "m_evaluate (methods_at 0 E) = (\<lambda>a. raise RecursionError)"
  "m_evaluate_range (methods_at 0 E) = (\<lambda>a. raise RecursionError)"
  "m_gen_graph (methods_at 0 E) = (\<lambda>s r. raise RecursionError)"
  "m_process_gen_graph (methods_at 0 E) = raise RecursionError"
  "m_drain_graph_todos (methods_at 0 E) = raise RecursionError"
  by simp_all

lemma evaluate'_Suc: "evaluate' (Suc n) E = evaluate_body (methods_at n E)"
  by (simp add: evaluate'_def)

lemma gen_graph'_Suc: "gen_graph' (Suc n) E = gen_graph_body n (methods_at n E) E"
  by (simp add: gen_graph'_def)

lemma process_gen_graph'_Suc:
  "process_gen_graph' (Suc n) E = process_gen_graph_body (methods_at n E)"
  by (simp add: process_gen_graph'_def)

lemma node_value_set_value [simp]: "node_value (node_set_value v x) = v"
  by (cases x) simp_all

lemma node_set_value_same [simp]: "node_set_value (node_value x) x = x"
  by (cases x) simp_all

lemma node_set_value_twice [simp]:
  "node_set_value v (node_set_value w x) = node_set_value v x"
  by (cases x) simp_all

text \<open>
  Running the model on a concrete state: the definitions are unfolded as the state
  reaches them, and no branch is entered before its test is decided.
\<close>

lemmas run_defs = evaluate'_def gen_graph'_def process_gen_graph'_def evaluate_range'_def
  evaluate_body_def evaluate_range_body_def gen_graph_body_def gen_graph_address_def
  process_gen_graph_body_def drain_graph_todos_body_def make_cells'_def
  build_cell_def new_Cell_def new_obj_def cell_map_set_def cell_map_item_def cell_map_get_def
  in_cell_map_def obj_def set_obj_def assign_value_def log_call_def add_node_to_graph_def
  excel_get_range_def get_active_sheet_name_def add_node_def add_edge_def successors_def
  methods_at_Suc_sel methods_at_0_sel monad_defs Let_def

lemmas example_defs = example_env_def example_compile_def example_sheet_def
  example_compiler_def init_def world0_def int_formula_def ten_def state_of_def

lemmas weak_congs = val.case_cong_weak node.case_cong_weak option.case_cong_weak
  sum.case_cong_weak prod.case_cong_weak list.case_cong_weak seed.case_cong_weak
  excel.case_cong_weak data.case_cong_weak error.case_cong_weak

subsection \<open>The graphs of the example\<close>

lemma example_graph_eq:
  "example_graph g f va =
     \<lparr>eval_ctx = None,
        excel = Some (ExcelOpxWrapper (example_sheet va) ''S''),
        filename = ''book.xlsx'', excel_file_md5_digest = None,
        log = Logger ''pycel'',
        dep_graph =
          \<lparr>nodes =
             [0, Suc 0, Suc (Suc 0), Suc (Suc (Suc 0)),
              Suc (Suc (Suc (Suc 0)))],
             edges =
               [(Suc (Suc 0), Suc 0), (Suc (Suc (Suc 0)), 0),
                (Suc (Suc (Suc (Suc 0))), Suc (Suc (Suc 0)))]\<rparr>,
        cell_map =
          [(''S!C1'', 0), (''S!D1'', Suc 0), (''S!E1'', Suc (Suc 0)),
           (''S!B1'', Suc (Suc (Suc 0))),
           (''S!A1'', Suc (Suc (Suc (Suc 0))))],
        graph_todos = Some [], range_todos = Some [], extra_data = None,
        formula_cells_list = None, files = [],
        heap =
          (\<lambda>r. CellRange \<lparr>r_address = [], r_addresses = [], r_value = VNone\<rparr>)
          (0 := Cell
                 \<lparr>c_address = ''S!C1'',
                    c_formula =
                      Some
                       \<lparr>f_python_code = ''f(S!B1)'',
                          f_needed_addresses = [''S!B1''],
                          f_eval =
                            EvalCell ''S!B1''
                             (case_val (Return VALUE_ERROR)
                               (\<lambda>i. Return (VInt (f i)))
                               (\<lambda>list. Return VALUE_ERROR)
                               (\<lambda>list. Return VALUE_ERROR)
                               (\<lambda>list. Return VALUE_ERROR))\<rparr>,
                    c_value = VNone, c_id = Suc 0\<rparr>,
             Suc 0 :=
               Cell
                \<lparr>c_address = ''S!D1'',
                   c_formula =
                     Some
                      \<lparr>f_python_code = ''S!E1*2'',
                         f_needed_addresses = [''S!E1''],
                         f_eval =
                           EvalCell ''S!E1''
                            (case_val (Return VALUE_ERROR)
                              (\<lambda>i. Return (VInt (i * 2)))
                              (\<lambda>list. Return VALUE_ERROR)
                              (\<lambda>list. Return VALUE_ERROR)
                              (\<lambda>list. Return VALUE_ERROR))\<rparr>,
                   c_value = VNone, c_id = Suc (Suc 0)\<rparr>,
             Suc (Suc 0) :=
               Cell
                \<lparr>c_address = ''S!E1'', c_formula = None, c_value = VInt 4,
                   c_id = Suc (Suc (Suc 0))\<rparr>,
             Suc (Suc (Suc 0)) :=
               Cell
                \<lparr>c_address = ''S!B1'',
                   c_formula =
                     Some
                      \<lparr>f_python_code = ''g(S!A1)'',
                         f_needed_addresses = [''S!A1''],
                         f_eval =
                           EvalCell ''S!A1''
                            (case_val (Return VALUE_ERROR)
                              (\<lambda>i. Return (VInt (g i)))
                              (\<lambda>list. Return VALUE_ERROR)
                              (\<lambda>list. Return VALUE_ERROR)
                              (\<lambda>list. Return VALUE_ERROR))\<rparr>,
                   c_value = VNone, c_id = Suc (Suc (Suc (Suc 0)))\<rparr>,
             Suc (Suc (Suc (Suc 0))) :=
               Cell
                \<lparr>c_address = ''S!A1'', c_formula = None, c_value = VInt va,
                   c_id = Suc (Suc (Suc (Suc (Suc 0))))\<rparr>),
        next_ref = Suc (Suc (Suc (Suc (Suc 0)))),
        ctr = Suc (Suc (Suc (Suc (Suc 0)))),
        log_records =
          [Log DEBUG ''Handling {}'' [AStr ''S!D1''],
           Log DEBUG ''Handling {}'' [AStr ''S!C1''],
           Log DEBUG ''Handling {}'' [AStr ''S!B1''],
           Log INFO
            ''Graph construction done, %s nodes, %s edges, %s self.cell_map entries''
            [ANat (Suc (Suc (Suc (Suc (Suc 0))))), ANat (Suc (Suc (Suc 0))),
             ANat (Suc (Suc (Suc (Suc (Suc 0)))))]]\<rparr>"
  by (simp add: example_graph_def run_defs example_defs del: methods_at.simps cong: weak_congs)

lemma array_graph_eq:
  "array_graph =
     \<lparr>eval_ctx = None,
        excel = Some (ExcelOpxWrapper (example_sheet 2) ''S''),
        filename = ''book.xlsx'', excel_file_md5_digest = None,
        log = Logger ''pycel'', dep_graph = \<lparr>nodes = [0], edges = []\<rparr>,
        cell_map = [(''S!F1'', 0)], graph_todos = Some [],
        range_todos = Some [], extra_data = None, formula_cells_list = None,
        files = [],
        heap =
          (\<lambda>r. CellRange \<lparr>r_address = [], r_addresses = [], r_value = VNone\<rparr>)
          (0 := Cell
                 \<lparr>c_address = ''S!F1'',
                    c_formula =
                      Some
                       \<lparr>f_python_code = ''(1,2)'', f_needed_addresses = [],
                          f_eval = Return (VList [VInt 1, VInt 2])\<rparr>,
                    c_value = VNone, c_id = Suc 0\<rparr>),
        next_ref = Suc 0, ctr = Suc 0,
        log_records =
          [Log DEBUG ''Handling {}'' [AStr ''S!F1''],
           Log INFO
            ''Graph construction done, %s nodes, %s edges, %s self.cell_map entries''
            [ANat (Suc 0), ANat 0, ANat (Suc 0)]]\<rparr>"
  by (simp add: array_graph_def run_defs example_defs del: methods_at.simps cong: weak_congs)

lemma ref_graph_eq:
  "ref_graph =
     \<lparr>eval_ctx = None,
        excel = Some (ExcelOpxWrapper (example_sheet 2) ''S''),
        filename = ''book.xlsx'', excel_file_md5_digest = None,
        log = Logger ''pycel'',
        dep_graph = \<lparr>nodes = [0, Suc 0], edges = [(Suc 0, 0)]\<rparr>,
        cell_map = [(''S!R1'', 0), (''S!A1'', Suc 0)], graph_todos = Some [],
        range_todos = Some [], extra_data = None, formula_cells_list = None,
        files = [],
        heap =
          (\<lambda>r. CellRange \<lparr>r_address = [], r_addresses = [], r_value = VNone\<rparr>)
          (0 := Cell
                 \<lparr>c_address = ''S!R1'',
                    c_formula =
                      Some
                       \<lparr>f_python_code = ''_REF_(S!A1)'',
                          f_needed_addresses = [''S!A1''],
                          f_eval = Return (VRef ''S!A1'')\<rparr>,
                    c_value = VNone, c_id = Suc 0\<rparr>,
             Suc 0 :=
               Cell
                \<lparr>c_address = ''S!A1'', c_formula = None, c_value = VInt 2,
                   c_id = Suc (Suc 0)\<rparr>),
        next_ref = Suc (Suc 0), ctr = Suc (Suc 0),
        log_records =
          [Log DEBUG ''Handling {}'' [AStr ''S!R1''],
           Log INFO
            ''Graph construction done, %s nodes, %s edges, %s self.cell_map entries''
            [ANat (Suc (Suc 0)), ANat (Suc 0), ANat (Suc (Suc 0))]]\<rparr>"
  by (simp add: ref_graph_def run_defs example_defs del: methods_at.simps cong: weak_congs)

lemma off_path_graph_eq:
  "off_path_graph =
     \<lparr>eval_ctx = None,
        excel = Some (ExcelOpxWrapper (example_sheet 2) ''S''),
        filename = ''book.xlsx'', excel_file_md5_digest = None,
        log = Logger ''pycel'',
        dep_graph =
          \<lparr>nodes =
             [0, Suc 0, Suc (Suc 0), Suc (Suc (Suc 0)),
              Suc (Suc (Suc (Suc 0)))],
             edges =
               [(Suc 0, 0), (Suc (Suc 0), Suc 0), (Suc (Suc (Suc 0)), Suc 0),
                (Suc (Suc (Suc (Suc 0))), Suc (Suc (Suc 0)))]\<rparr>,
        cell_map =
          [(''S!Q1'', 0), (''S!P1'', Suc 0), (''S!A1'', Suc (Suc 0)),
           (''S!X1'', Suc (Suc (Suc 0))),
           (''S!E1'', Suc (Suc (Suc (Suc 0))))],
        graph_todos = Some [], range_todos = Some [], extra_data = None,
        formula_cells_list = None, files = [],
        heap =
          (\<lambda>r. CellRange \<lparr>r_address = [], r_addresses = [], r_value = VNone\<rparr>)
          (0 := Cell
                 \<lparr>c_address = ''S!Q1'',
                    c_formula =
                      Some
                       \<lparr>f_python_code = ''S!P1+1'',
                          f_needed_addresses = [''S!P1''],
                          f_eval =
                            EvalCell ''S!P1''
                             (case_val (Return VALUE_ERROR)
                               (\<lambda>i. Return (VInt (i + 1)))
                               (\<lambda>list. Return VALUE_ERROR)
                               (\<lambda>list. Return VALUE_ERROR)
                               (\<lambda>list. Return VALUE_ERROR))\<rparr>,
                    c_value = VNone, c_id = Suc 0\<rparr>,
             Suc 0 :=
               Cell
                \<lparr>c_address = ''S!P1'',
                   c_formula =
                     Some
                      \<lparr>f_python_code = ''S!A1+S!X1'',
                         f_needed_addresses = [''S!A1'', ''S!X1''],
                         f_eval =
                           EvalCell ''S!A1''
                            (\<lambda>u. EvalCell ''S!X1''
                                  (\<lambda>v. Return (add_val u v)))\<rparr>,
                   c_value = VNone, c_id = Suc (Suc 0)\<rparr>,
             Suc (Suc 0) :=
               Cell
                \<lparr>c_address = ''S!A1'', c_formula = None, c_value = VInt 2,
                   c_id = Suc (Suc (Suc 0))\<rparr>,
             Suc (Suc (Suc 0)) :=
               Cell
                \<lparr>c_address = ''S!X1'',
                   c_formula =
                     Some
                      \<lparr>f_python_code = ''S!E1*2'',
                         f_needed_addresses = [''S!E1''],
                         f_eval =
                           EvalCell ''S!E1''
                            (case_val (Return VALUE_ERROR)
                              (\<lambda>i. Return (VInt (i * 2)))
                              (\<lambda>list. Return VALUE_ERROR)
                              (\<lambda>list. Return VALUE_ERROR)
                              (\<lambda>list. Return VALUE_ERROR))\<rparr>,
                   c_value = VNone, c_id = Suc (Suc (Suc (Suc 0)))\<rparr>,
             Suc (Suc (Suc (Suc 0))) :=
               Cell
                \<lparr>c_address = ''S!E1'', c_formula = None, c_value = VInt 4,
                   c_id = Suc (Suc (Suc (Suc (Suc 0))))\<rparr>),
        next_ref = Suc (Suc (Suc (Suc (Suc 0)))),
        ctr = Suc (Suc (Suc (Suc (Suc 0)))),
        log_records =
          [Log DEBUG ''Handling {}'' [AStr ''S!Q1''],
           Log DEBUG ''Handling {}'' [AStr ''S!P1''],
           Log DEBUG ''Handling {}'' [AStr ''S!X1''],
           Log INFO
            ''Graph construction done, %s nodes, %s edges, %s self.cell_map entries''
            [ANat (Suc (Suc (Suc (Suc (Suc 0))))),
             ANat (Suc (Suc (Suc (Suc 0)))),
             ANat (Suc (Suc (Suc (Suc (Suc 0)))))]]\<rparr>"
  by (simp add: off_path_graph_def run_defs example_defs del: methods_at.simps cong: weak_congs)

subsection \<open>Pickling\<close>

text \<open>
  What the two methods do. \<open>__getstate__\<close> replaces the evaluation context, the data
  source, the logger and both work queues by \<open>None\<close> and keeps every other attribute;
  \<open>__setstate__\<close> takes every attribute from the dict and sets the logger, and does
  nothing else.
\<close>

lemma getstate_entries:
  "getstate c =
     \<lparr>d_eval = None, d_excel = None, d_filename = filename c,
      d_excel_file_md5_digest = excel_file_md5_digest c, d_log = None,
      d_dep_graph = dep_graph c, d_cell_map = cell_map c,
      d_graph_todos = None, d_range_todos = None,
      d_extra_data = extra_data c, d_formula_cells_list = formula_cells_list c\<rparr>"
  by (simp add: getstate_def)

lemma setstate_getstate:
  "setstate w (getstate c) =
     w\<lparr>eval_ctx := None, excel := None, filename := filename c,
       excel_file_md5_digest := excel_file_md5_digest c, log := Logger ''pycel'',
       dep_graph := dep_graph c, cell_map := cell_map c,
       graph_todos := None, range_todos := None,
       extra_data := extra_data c, formula_cells_list := formula_cells_list c\<rparr>"
  by (simp add: getstate_def setstate_def)

text \<open>
  C9 is not what the code does. A compiler has empty queues after its construction and
  after \<open>_from_text\<close>; pickled and loaded, its two queues are \<open>None\<close>, since
  \<open>__setstate__\<close> restores the logger only. On the compiler of the example
  \<open>_process_gen_graph\<close> returns, and on its loaded copy it raises \<open>TypeError\<close> at
  \<open>reversed(self.range_todos)\<close>; so does \<open>trim_graph\<close> on the loaded copy of the graph of
  the scenario, which the graph itself trims without error.
\<close>

theorem unpickled_queues_are_None:
  "graph_todos (example_compiler 2) = Some []
   \<and> range_todos (example_compiler 2) = Some []
   \<and> graph_todos (setstate (example_compiler 2) (getstate (example_compiler 2))) = None
   \<and> range_todos (setstate (example_compiler 2) (getstate (example_compiler 2))) = None
   \<and> log (setstate (example_compiler 2) (getstate (example_compiler 2))) = Logger ''pycel''
   \<and> map_sum id fst (process_gen_graph' (Suc (Suc 0)) spec_env (example_compiler 2)) = Inr ()
   \<and> process_gen_graph' (Suc (Suc 0)) spec_env
        (setstate (example_compiler 2) (getstate (example_compiler 2))) = Inl TypeError
   \<and> map_sum id fst (trim_graph ten spec_env [''S!A1''] [''S!C1''] spec_graph) = Inr ()
   \<and> trim_graph ten spec_env [''S!A1''] [''S!C1''] (setstate spec_graph (getstate spec_graph))
       = Inl TypeError"
  unfolding spec_graph_def example_graph_eq setstate_getstate
  by (simp add: trim_graph_def trim_built_def run_defs spec_env_def example_defs
      del: methods_at.simps cong: weak_congs)

text \<open>The same on every loaded compiler.\<close>

lemma process_gen_graph_unpickled:
  "process_gen_graph' (Suc (Suc n)) E (setstate w (getstate c)) = Inl TypeError"
  by (simp add: process_gen_graph'_Suc process_gen_graph_body_def drain_graph_todos_body_def
      methods_at_Suc_sel monad_defs getstate_def setstate_def del: methods_at.simps)

subsection \<open>The graph builder on a seed that is already built\<close>

text \<open>
  C5. When the address of the seed (the seed itself, or the seed on the active sheet
  when it names no sheet) is a key of \<open>cell_map\<close>, \<open>_gen_graph\<close> returns at once and leaves
  the whole state as it is: nodes, edges and \<open>cell_map\<close> are unchanged.
\<close>

theorem gen_graph_existing_seed:
  assumes "in_cell_map c k"
    and "(has_sheet E a \<and> k = a) \<or>
         (\<not> has_sheet E a \<and>
          (\<exists>g sh. excel c = Some (ExcelOpxWrapper g sh) \<and> k = with_sheet E a sh))"
  shows "gen_graph' (Suc n) E (SeedAddr a) recursed c = Inr ((), c)"
  using assms
  by (auto simp add: gen_graph'_Suc gen_graph_body_def gen_graph_address_def monad_defs
      get_active_sheet_name_def simp del: methods_at.simps)

theorem gen_graph_existing_seed_witness:
  "in_cell_map (example_graph (\<lambda>i. i * 3) (\<lambda>i. i + 1) 2) ''S!C1''
   \<and> has_sheet (example_env (\<lambda>i. i * 3) (\<lambda>i. i + 1)) ''S!C1''
   \<and> gen_graph' (Suc 0) (example_env (\<lambda>i. i * 3) (\<lambda>i. i + 1)) (SeedAddr ''S!C1'') False
        (example_graph (\<lambda>i. i * 3) (\<lambda>i. i + 1) 2)
      = Inr ((), example_graph (\<lambda>i. i * 3) (\<lambda>i. i + 1) 2)"
proof -
  have h1: "in_cell_map (example_graph (\<lambda>i. i * 3) (\<lambda>i. i + 1) 2) ''S!C1''"
    by (simp add: example_graph_eq in_cell_map_def cell_map_get_def)
  have h2: "has_sheet (example_env (\<lambda>i. i * 3) (\<lambda>i. i + 1)) ''S!C1''"
    by (simp add: example_env_def)
  from gen_graph_existing_seed [OF h1, of "example_env (\<lambda>i. i * 3) (\<lambda>i. i + 1)" "''S!C1''" 0 False]
    h1 h2 show ?thesis by blast
qed

subsection \<open>A list-like result in a single cell\<close>

text \<open>
  C7. When the formula of a cell without a cached value returns a list or tuple,
  \<open>_evaluate\<close> stores \<open>VALUE_ERROR\<close> as the value of the cell and returns it. The state
  in which the formula runs is the one after the debug record and the evaluation
  context.
\<close>

theorem evaluate_list_like:
  assumes "cell_map_get c a = Some r" and "obj c r = Cell x" and "c_value x = VNone"
    and "c_formula x = Some f" and "f_python_code f \<noteq> []"
    and "run_formula (methods_at n E) (f_eval f)
           (c\<lparr>log_records := log_records c @
                 [Log DEBUG ''Evaluating: {}, {}'' [AStr (c_address x), AStr (f_python_code f)]],
              eval_ctx := Some ()\<rparr>) = Inr (VList xs, c')"
  shows "evaluate' (Suc n) E a c =
           Inr (VALUE_ERROR,
                c'\<lparr>log_records := log_records c' @
                      [Log INFO ''Cell %s evaluated to %s (%s)''
                         [AStr (c_address x), AVal (VList xs)]],
                   heap := (heap c')(r := node_set_value VALUE_ERROR (heap c' r))\<rparr>)"
proof -
  have e: "eval_ctx c = Some () \<Longrightarrow>
      c\<lparr>log_records := l, eval_ctx := Some ()\<rparr> = c\<lparr>log_records := l\<rparr>" for l
    by simp
  show ?thesis
    using assms
    by (cases "eval_ctx c")
      (simp_all add: e evaluate'_Suc evaluate_body_def monad_defs cell_map_item_def
        log_call_def assign_value_def set_obj_def obj_def VALUE_ERROR_def
        del: methods_at.simps)
qed

theorem evaluate_list_like_witness:
  "cell_map_get array_graph ''S!F1'' = Some 0
   \<and> node_value (obj array_graph 0) = VNone
   \<and> map_sum id fst (evaluate' (Suc 0) (example_env id id) ''S!F1'' array_graph) = Inr VALUE_ERROR
   \<and> node_value (obj (state_of (evaluate' (Suc 0) (example_env id id) ''S!F1'' array_graph)) 0)
       = VALUE_ERROR"
proof -
  define f where "f = \<lparr>f_python_code = ''(1,2)'', f_needed_addresses = [],
                       f_eval = Return (VList [VInt 1, VInt 2])\<rparr>"
  define x where "x = \<lparr>c_address = ''S!F1'', c_formula = Some f, c_value = VNone, c_id = Suc 0\<rparr>"
  have h1: "cell_map_get array_graph ''S!F1'' = Some 0"
    by (simp add: array_graph_eq cell_map_get_def)
  have h2: "obj array_graph 0 = Cell x"
    by (simp add: array_graph_eq obj_def x_def f_def)
  have h3: "c_value x = VNone" and h4: "c_formula x = Some f" and h5: "f_python_code f \<noteq> []"
    by (simp_all add: x_def f_def)
  have h6: "run_formula (methods_at 0 (example_env id id)) (f_eval f)
      (array_graph\<lparr>log_records := log_records array_graph @
          [Log DEBUG ''Evaluating: {}, {}'' [AStr (c_address x), AStr (f_python_code f)]],
        eval_ctx := Some ()\<rparr>)
      = Inr (VList [VInt 1, VInt 2],
          array_graph\<lparr>log_records := log_records array_graph @
          [Log DEBUG ''Evaluating: {}, {}'' [AStr (c_address x), AStr (f_python_code f)]],
        eval_ctx := Some ()\<rparr>)"
    by (simp add: f_def monad_defs)
  note t = evaluate_list_like [OF h1 h2 h3 h4 h5 h6]
  show ?thesis
    using h1 h2 h3 by (simp add: t state_of_def obj_def)
qed

subsection \<open>Memoization\<close>

text \<open>
  C1. Let the cell at an address have no cached value and a formula, and let the
  formula return a value \<open>v\<close>, that is, not \<open>None\<close>, which is the mark of a value that
  is not there. The first \<open>evaluate\<close> runs the formula, caches the result \<open>w\<close> (\<open>VALUE_ERROR\<close>
  for a list) in the state \<open>c1\<close> and reads it: it returns \<open>w\<close>, or what the address
  evaluates to when \<open>w\<close> is a reference. From then on, in every state in which the
  address names this cell and the cell holds \<open>w\<close>, \<open>evaluate\<close> does not run the formula:
  it only reads the cached value in the same way. When \<open>w\<close> is no reference (and the
  address names the same cell when the formula has run) both calls return the
  identical \<open>w\<close>, and the second leaves the whole state, the log of evaluations
  included, as the first has left it.
\<close>

theorem evaluate_memoized:
  assumes "cell_map_get c a = Some r" and "obj c r = Cell x" and "c_value x = VNone"
    and "c_formula x = Some f" and "f_python_code f \<noteq> []"
    and "run_formula (methods_at n E) (f_eval f)
           (c\<lparr>log_records := log_records c @
                 [Log DEBUG ''Evaluating: {}, {}'' [AStr (c_address x), AStr (f_python_code f)]],
              eval_ctx := Some ()\<rparr>) = Inr (v, c')"
    and "v \<noteq> VNone"
    and "w = (if list_like v then VALUE_ERROR else v)"
    and "c1 = c'\<lparr>log_records := log_records c' @
                      [Log INFO ''Cell %s evaluated to %s (%s)'' [AStr (c_address x), AVal v]],
                   heap := (heap c')(r := node_set_value w (heap c' r))\<rparr>"
  shows "evaluate (Suc (Suc n)) E (Addr a) c =
           (case w of VRef b \<Rightarrow> evaluate' n E b c1 | u \<Rightarrow> Inr (u, c1))
         \<and> node_value (obj c1 r) = w
         \<and> (\<forall>c2 m. cell_map_get c2 a = Some r \<and> node_value (obj c2 r) = w \<longrightarrow>
               evaluate (Suc (Suc m)) E (Addr a) c2 =
                 (case w of VRef b \<Rightarrow> evaluate' m E b c2 | u \<Rightarrow> Inr (u, c2)))
         \<and> (cell_map_get c' a = Some r \<and> w \<notin> range VRef \<longrightarrow>
               evaluate (Suc (Suc n)) E (Addr a) c = Inr (w, c1)
               \<and> evaluate (Suc (Suc m)) E (Addr a) c1 = Inr (w, c1))"
proof -
  have e: "eval_ctx c = Some () \<Longrightarrow>
      c\<lparr>log_records := l, eval_ctx := Some ()\<rparr> = c\<lparr>log_records := l\<rparr>" for l
    by simp
  have w: "w \<noteq> VNone"
    using assms(7,8) by (auto simp add: VALUE_ERROR_def)
  note fold_w = assms(8) [symmetric]
  have first: "evaluate (Suc (Suc n)) E (Addr a) c =
      (case w of VRef b \<Rightarrow> evaluate' n E b c1 | u \<Rightarrow> Inr (u, c1))"
    using assms(1-6) w unfolding assms(9) evaluate'_def
    by (cases "eval_ctx c")
      (simp_all add: e in_cell_map_def evaluate_body_def monad_defs
        cell_map_item_def log_call_def assign_value_def set_obj_def obj_def
        fold_w evaluate'_def methods_at_Suc_sel del: methods_at.simps)
  have cached: "node_value (obj c1 r) = w"
    by (simp add: assms(9) obj_def)
  have later: "evaluate (Suc (Suc m)) E (Addr a) c2 =
      (case w of VRef b \<Rightarrow> evaluate' m E b c2 | u \<Rightarrow> Inr (u, c2))"
    if "cell_map_get c2 a = Some r" "node_value (obj c2 r) = w" for c2 m
    using that w unfolding evaluate'_def
    by (simp add: in_cell_map_def evaluate_body_def monad_defs
        cell_map_item_def evaluate'_def methods_at_Suc_sel del: methods_at.simps)
  have final_read: "(case w of VRef b \<Rightarrow> F b | u \<Rightarrow> Inr (u, s)) = Inr (w, s)"
    if "w \<notin> range VRef" for F s
    using that by (cases w) auto
  have same: "evaluate (Suc (Suc n)) E (Addr a) c = Inr (w, c1)
      \<and> evaluate (Suc (Suc m)) E (Addr a) c1 = Inr (w, c1)"
    if "cell_map_get c' a = Some r" "w \<notin> range VRef"
  proof -
    have "cell_map_get c1 a = Some r"
      using that(1) by (simp add: assms(9) cell_map_get_def)
    from later [OF this cached, of m] first show ?thesis
      by (simp add: final_read [OF that(2)])
  qed
  from first cached later same show ?thesis by blast
qed

theorem evaluate_memoized_witness:
  "cell_map_get spec_graph ''S!B1'' = Some (Suc (Suc (Suc 0)))
   \<and> node_value (obj spec_graph (Suc (Suc (Suc 0)))) = VNone
   \<and> evaluate (Suc (Suc (Suc 0))) spec_env (Addr ''S!B1'') spec_graph
       = Inr (VInt 6, state_of (evaluate (Suc (Suc (Suc 0))) spec_env (Addr ''S!B1'') spec_graph))
   \<and> evaluate (Suc (Suc 0)) spec_env (Addr ''S!B1'')
        (state_of (evaluate (Suc (Suc (Suc 0))) spec_env (Addr ''S!B1'') spec_graph))
      = Inr (VInt 6, state_of (evaluate (Suc (Suc (Suc 0))) spec_env (Addr ''S!B1'') spec_graph))
   \<and> cell_map_get ref_graph ''S!R1'' = Some 0
   \<and> node_value (obj ref_graph 0) = VNone
   \<and> evaluate (Suc (Suc (Suc 0))) spec_env (Addr ''S!R1'') ref_graph
       = Inr (VInt 2, state_of (evaluate (Suc (Suc (Suc 0))) spec_env (Addr ''S!R1'') ref_graph))
   \<and> node_value (obj (state_of (evaluate (Suc (Suc (Suc 0))) spec_env (Addr ''S!R1'') ref_graph)) 0)
       = VRef ''S!A1''
   \<and> evaluate (Suc (Suc (Suc 0))) spec_env (Addr ''S!R1'')
        (state_of (evaluate (Suc (Suc (Suc 0))) spec_env (Addr ''S!R1'') ref_graph))
      = Inr (VInt 2, state_of (evaluate (Suc (Suc (Suc 0))) spec_env (Addr ''S!R1'') ref_graph))"
proof -
  let ?B = "Suc (Suc (Suc 0))"
  text \<open>The cell \<open>B1\<close>, whose result is a number.\<close>
  define f where "f = int_formula ''g(S!A1)'' ''S!A1'' (\<lambda>i. i * 3)"
  define x where "x = \<lparr>c_address = ''S!B1'', c_formula = Some f, c_value = VNone,
                       c_id = Suc (Suc (Suc (Suc 0)))\<rparr>"
  define c0 where "c0 = spec_graph\<lparr>log_records := log_records spec_graph @
      [Log DEBUG ''Evaluating: {}, {}'' [AStr (c_address x), AStr (f_python_code f)]],
      eval_ctx := Some ()\<rparr>"
  define c1 where "c1 = c0\<lparr>log_records := log_records c0 @
      [Log INFO ''Cell %s evaluated to %s (%s)'' [AStr (c_address x), AVal (VInt 6)]],
      heap := (heap c0)(?B := node_set_value (VInt 6) (heap c0 ?B))\<rparr>"
  have h1: "cell_map_get spec_graph ''S!B1'' = Some ?B"
    by (simp add: spec_graph_def example_graph_eq cell_map_get_def)
  have h2: "obj spec_graph ?B = Cell x"
    by (simp add: spec_graph_def example_graph_eq obj_def x_def f_def int_formula_def)
  have h3: "c_value x = VNone" and h4: "c_formula x = Some f" and h5: "f_python_code f \<noteq> []"
    by (simp_all add: x_def f_def int_formula_def)
  have h6: "run_formula (methods_at (Suc 0) spec_env) (f_eval f)
      (spec_graph\<lparr>log_records := log_records spec_graph @
      [Log DEBUG ''Evaluating: {}, {}'' [AStr (c_address x), AStr (f_python_code f)]],
      eval_ctx := Some ()\<rparr>) = Inr (VInt 6, c0)"
    by (simp add: c0_def f_def x_def int_formula_def spec_graph_def example_graph_eq run_defs
        del: methods_at.simps cong: weak_congs)
  have h8: "VInt 6 = (if list_like (VInt 6) then VALUE_ERROR else VInt 6)"
    by simp
  have h9: "cell_map_get c0 ''S!B1'' = Some ?B"
    using h1 by (simp add: c0_def cell_map_get_def)
  have h7: "VInt 6 \<noteq> VNone" and h10: "VInt 6 \<notin> range VRef"
    by auto
  note t = evaluate_memoized [OF h1 h2 h3 h4 h5 h6 h7 h8 c1_def, where m = 0]
  have b: "evaluate (Suc (Suc (Suc 0))) spec_env (Addr ''S!B1'') spec_graph = Inr (VInt 6, c1)
      \<and> evaluate (Suc (Suc 0)) spec_env (Addr ''S!B1'') c1 = Inr (VInt 6, c1)"
    using t [THEN conjunct2, THEN conjunct2, THEN conjunct2] h9 h10 by blast
  text \<open>The cell \<open>R1\<close>, whose result is a reference to \<open>A1\<close>.\<close>
  define f' where "f' = \<lparr>f_python_code = ''_REF_(S!A1)'', f_needed_addresses = [''S!A1''],
      f_eval = Return (VRef ''S!A1'')\<rparr>"
  define x' where "x' = \<lparr>c_address = ''S!R1'', c_formula = Some f', c_value = VNone,
      c_id = Suc 0\<rparr>"
  define d0 where "d0 = ref_graph\<lparr>log_records := log_records ref_graph @
      [Log DEBUG ''Evaluating: {}, {}'' [AStr (c_address x'), AStr (f_python_code f')]],
      eval_ctx := Some ()\<rparr>"
  define d1 where "d1 = d0\<lparr>log_records := log_records d0 @
      [Log INFO ''Cell %s evaluated to %s (%s)'' [AStr (c_address x'), AVal (VRef ''S!A1'')]],
      heap := (heap d0)(0 := node_set_value (VRef ''S!A1'') (heap d0 0))\<rparr>"
  have k1: "cell_map_get ref_graph ''S!R1'' = Some 0"
    by (simp add: ref_graph_eq cell_map_get_def)
  have k2: "obj ref_graph 0 = Cell x'"
    by (simp add: ref_graph_eq obj_def x'_def f'_def)
  have k3: "c_value x' = VNone" and k4: "c_formula x' = Some f'" and k5: "f_python_code f' \<noteq> []"
    by (simp_all add: x'_def f'_def)
  have k6: "run_formula (methods_at (Suc 0) spec_env) (f_eval f')
      (ref_graph\<lparr>log_records := log_records ref_graph @
      [Log DEBUG ''Evaluating: {}, {}'' [AStr (c_address x'), AStr (f_python_code f')]],
      eval_ctx := Some ()\<rparr>) = Inr (VRef ''S!A1'', d0)"
    by (simp add: d0_def f'_def monad_defs)
  have k8: "VRef ''S!A1'' = (if list_like (VRef ''S!A1'') then VALUE_ERROR else VRef ''S!A1'')"
    by simp
  have deref: "evaluate' (Suc 0) spec_env ''S!A1'' d1 = Inr (VInt 2, d1)"
    by (simp add: d1_def d0_def x'_def f'_def ref_graph_eq run_defs
        del: methods_at.simps cong: weak_congs)
  have k9: "cell_map_get d1 ''S!R1'' = Some 0" and k10: "node_value (obj d1 0) = VRef ''S!A1''"
    using k1 by (simp_all add: d1_def d0_def cell_map_get_def obj_def)
  have k7: "VRef ''S!A1'' \<noteq> VNone"
    by simp
  note u = evaluate_memoized [OF k1 k2 k3 k4 k5 k6 k7 k8 d1_def]
  have r1: "evaluate (Suc (Suc (Suc 0))) spec_env (Addr ''S!R1'') ref_graph = Inr (VInt 2, d1)"
    using u [THEN conjunct1] deref by (simp del: evaluate.simps)
  have "evaluate (Suc (Suc (Suc 0))) spec_env (Addr ''S!R1'') d1 =
      (case VRef ''S!A1'' of VRef b \<Rightarrow> evaluate' (Suc 0) spec_env b d1 | u \<Rightarrow> Inr (u, d1))"
    using u [THEN conjunct2, THEN conjunct2, THEN conjunct1] k9 k10 by blast
  with deref have r2: "evaluate (Suc (Suc (Suc 0))) spec_env (Addr ''S!R1'') d1 = Inr (VInt 2, d1)"
    by (simp del: evaluate.simps)
  have vB: "node_value (obj spec_graph ?B) = VNone" and vR: "node_value (obj ref_graph 0) = VNone"
    using h2 h3 k2 k3 by simp_all
  show ?thesis
    using h1 k1 vB vR b r1 r2 k10 by (simp add: state_of_def del: evaluate.simps)
qed

subsection \<open>Invalidation\<close>

lemma cleared_only_refl: "cleared_only c c"
  by (simp add: cleared_only_def)

lemma cleared_only_trans:
  assumes "cleared_only a b" and "cleared_only b c"
  shows "cleared_only a c"
proof -
  have ab: "heap b r = heap a r \<or> heap b r = node_set_value VNone (heap a r)" for r
    using assms(1) by (simp add: cleared_only_def)
  have bc: "heap c r = heap b r \<or> heap c r = node_set_value VNone (heap b r)" for r
    using assms(2) by (simp add: cleared_only_def)
  have "heap c r = heap a r \<or> heap c r = node_set_value VNone (heap a r)" for r
    using ab [of r] bc [of r] by auto
  then show ?thesis
    using assms by (simp add: cleared_only_def)
qed

lemma cleared_only_None:
  assumes "cleared_only c c'" and "node_value (heap c r) = VNone"
  shows "node_value (heap c' r) = VNone"
proof -
  have "heap c' r = heap c r \<or> heap c' r = node_set_value VNone (heap c r)"
    using assms(1) by (simp add: cleared_only_def)
  then show ?thesis
    using assms(2) by auto
qed

lemma cascadedI:
  assumes "cleared_only c c'"
    and "\<And>w s. node_value (heap c w) \<noteq> VNone \<Longrightarrow> node_value (heap c' w) = VNone \<Longrightarrow>
           w \<in> set (nodes (dep_graph c)) \<Longrightarrow> (w, s) \<in> set (edges (dep_graph c)) \<Longrightarrow>
           node_value (heap c' s) = VNone"
  shows "cascaded c c'"
  unfolding cascaded_def using assms by blast

lemma cascadedD:
  assumes "cascaded c c'"
    and "node_value (heap c w) \<noteq> VNone" and "node_value (heap c' w) = VNone"
    and "w \<in> set (nodes (dep_graph c))" and "(w, s) \<in> set (edges (dep_graph c))"
  shows "node_value (heap c' s) = VNone"
  using assms unfolding cascaded_def by blast

lemma cascaded_cleared_only: "cascaded c c' \<Longrightarrow> cleared_only c c'"
  by (simp add: cascaded_def)

lemma cascaded_refl: "cascaded c c"
  by (auto simp add: cascaded_def cleared_only_refl)

lemma cascaded_trans:
  assumes "cascaded a b" and "cascaded b c"
  shows "cascaded a c"
proof (rule cascadedI)
  have co: "cleared_only a b" "cleared_only b c"
    using assms by (simp_all add: cascaded_def)
  show "cleared_only a c"
    using co by (rule cleared_only_trans)
  have g: "dep_graph b = dep_graph a"
    using co(1) by (simp add: cleared_only_def)
  fix w s
  assume h: "node_value (heap a w) \<noteq> VNone" "node_value (heap c w) = VNone"
    "w \<in> set (nodes (dep_graph a))" "(w, s) \<in> set (edges (dep_graph a))"
  show "node_value (heap c s) = VNone"
  proof (cases "node_value (heap b w) = VNone")
    case True
    have "node_value (heap b s) = VNone"
      by (rule cascadedD [OF assms(1) h(1) True h(3) h(4)])
    with co(2) show ?thesis by (rule cleared_only_None)
  next
    case False
    show ?thesis
      by (rule cascadedD [OF assms(2) False h(2)]) (simp_all add: g h)
  qed
qed

lemma cached_mono:
  assumes "cleared_only c c'"
  shows "cached c' \<le> cached c"
proof -
  have imp: "node_value (obj c' r) \<noteq> VNone \<Longrightarrow> node_value (obj c r) \<noteq> VNone" for r
    using cleared_only_None [OF assms] by (auto simp add: obj_def)
  have "length (filter P xs) \<le> length (filter Q xs)" if "\<And>x. P x \<Longrightarrow> Q x"
    for P Q :: "nat \<Rightarrow> bool" and xs
    using that by (induction xs) auto
  from this [of "\<lambda>r. node_value (obj c' r) \<noteq> VNone" "\<lambda>r. node_value (obj c r) \<noteq> VNone"] imp
  show ?thesis
    using assms by (simp add: cached_def cleared_only_def)
qed

lemma cached_less:
  assumes "cleared_only c c'" and "cell \<in> set (nodes (dep_graph c))"
    and "node_value (obj c cell) \<noteq> VNone" and "node_value (obj c' cell) = VNone"
  shows "cached c' < cached c"
proof -
  let ?P = "\<lambda>r. node_value (obj c r) \<noteq> VNone"
  let ?P' = "\<lambda>r. node_value (obj c' r) \<noteq> VNone"
  have imp: "?P' r \<Longrightarrow> ?P r" for r
    using cleared_only_None [OF assms(1)] by (auto simp add: obj_def)
  have "filter ?P' (nodes (dep_graph c)) = filter ?P' (filter ?P (nodes (dep_graph c)))"
    using imp by (auto intro: filter_cong)
  moreover have "cell \<in> set (filter ?P (nodes (dep_graph c)))"
    using assms by simp
  then have "length (filter ?P' (filter ?P (nodes (dep_graph c))))
      < length (filter ?P (nodes (dep_graph c)))"
    using assms(4) by (intro length_filter_less) auto
  ultimately show ?thesis
    using assms(1) by (simp add: cached_def cleared_only_def)
qed

text \<open>A loop whose steps all return, keep an invariant and move along a preorder.\<close>

lemma for_each_total:
  assumes "I c"
    and step: "\<And>x c. x \<in> set xs \<Longrightarrow> I c \<Longrightarrow>
                \<exists>c'. f x c = Inr ((), c') \<and> I c' \<and> S c c' \<and> Post x c'"
    and refl: "\<And>c. S c c"
    and trans: "\<And>a b c. S a b \<Longrightarrow> S b c \<Longrightarrow> S a c"
    and stable: "\<And>x c c'. Post x c \<Longrightarrow> S c c' \<Longrightarrow> Post x c'"
  shows "\<exists>c'. for_each xs f c = Inr ((), c') \<and> I c' \<and> S c c' \<and> (\<forall>x\<in>set xs. Post x c')"
  using assms(1,2)
proof (induction xs arbitrary: c)
  case Nil
  then show ?case by (simp add: return_def refl)
next
  case (Cons x xs)
  have "\<exists>c'. f x c = Inr ((), c') \<and> I c' \<and> S c c' \<and> Post x c'"
    by (rule Cons.prems(2)) (simp, rule Cons.prems(1))
  then obtain c1 where c1: "f x c = Inr ((), c1)" "I c1" "S c c1" "Post x c1"
    by blast
  have "\<exists>c'. for_each xs f c1 = Inr ((), c') \<and> I c' \<and> S c1 c' \<and> (\<forall>y\<in>set xs. Post y c')"
  proof (rule Cons.IH [OF c1(2)])
    fix y ci
    assume "y \<in> set xs" and "I ci"
    then show "\<exists>c'. f y ci = Inr ((), c') \<and> I c' \<and> S ci c' \<and> Post y c'"
      using Cons.prems(2) [of y ci] by simp
  qed
  then obtain c2 where c2: "for_each xs f c1 = Inr ((), c2)" "I c2" "S c1 c2" "\<forall>y\<in>set xs. Post y c2"
    by blast
  have "for_each (x # xs) f c = Inr ((), c2)"
    using c1(1) c2(1) by (simp add: seq_def bind_def)
  moreover have "S c c2" using c1(3) c2(3) by (rule trans)
  moreover have "Post x c2" using c1(4) c2(3) by (rule stable)
  ultimately show ?case using c2 by auto
qed

lemma reset_total:
  "cached c < n \<Longrightarrow>
   \<exists>c'. reset' n cell c = Inr ((), c') \<and> cascaded c c' \<and> node_value (obj c' cell) = VNone"
proof (induction n arbitrary: cell c)
  case 0
  then show ?case by simp
next
  case (Suc n)
  show ?case
  proof (cases "node_value (obj c cell) = VNone")
    case True
    then show ?thesis by (simp add: skip_def cascaded_refl)
  next
    case False
    define c1 where "c1 = c\<lparr>log_records := log_records c @
        [Log INFO ''Resetting {}'' [AStr (node_address (obj c cell))]],
        heap := (heap c)(cell := node_set_value VNone (heap c cell))\<rparr>"
    have co1: "cleared_only c c1"
      by (simp add: c1_def cleared_only_def)
    have v1: "node_value (obj c1 cell) = VNone"
      by (simp add: c1_def obj_def)
    have other: "w \<noteq> cell \<Longrightarrow> heap c1 w = heap c w" for w
      by (simp add: c1_def)
    show ?thesis
    proof (cases "cell \<in> set (nodes (dep_graph c))")
      case False
      have "reset' (Suc n) cell c = Inr ((), c1)"
        using False \<open>node_value (obj c cell) \<noteq> VNone\<close>
        by (simp add: monad_defs log_call_def assign_value_def set_obj_def obj_def c1_def)
      moreover have "cascaded c c1"
      proof (rule cascadedI)
        show "cleared_only c c1" by (rule co1)
      next
        fix w s
        assume a1: "node_value (heap c w) \<noteq> VNone" and a2: "node_value (heap c1 w) = VNone"
          and a3: "w \<in> set (nodes (dep_graph c))"
        have "w = cell"
        proof (rule ccontr)
          assume "w \<noteq> cell"
          then have "heap c1 w = heap c w" by (rule other)
          with a1 a2 show False by simp
        qed
        with a3 False show "node_value (heap c1 s) = VNone" by simp
      qed
      ultimately show ?thesis using v1 by simp
    next
      case True
      define children where
        "children = map snd (filter (\<lambda>e. fst e = cell) (edges (dep_graph c)))"
      define body where "body = (\<lambda>child_cell c.
          if node_value (obj c child_cell) \<noteq> VNone then reset' n child_cell c else skip c)"
      have unfold: "reset' (Suc n) cell c = for_each children body c1"
        using True \<open>node_value (obj c cell) \<noteq> VNone\<close>
        by (simp add: monad_defs log_call_def assign_value_def set_obj_def obj_def c1_def
            successors_def children_def body_def)
      have less: "cached c1 < n"
        using cached_less [OF co1 True False v1] Suc.prems by simp
      have step: "\<exists>c'. body x ci = Inr ((), c') \<and> cascaded c1 c' \<and> cascaded ci c'
          \<and> node_value (obj c' x) = VNone" if "cascaded c1 ci" for x ci
      proof (cases "node_value (obj ci x) = VNone")
        case True
        then show ?thesis
          using that by (simp add: body_def skip_def cascaded_refl)
      next
        case False
        have "cached ci < n"
          using less cached_mono [OF cascaded_cleared_only [OF that]] by simp
        from Suc.IH [OF this, of x] obtain c' where
          "reset' n x ci = Inr ((), c')" "cascaded ci c'" "node_value (obj c' x) = VNone"
          by blast
        then show ?thesis
          using False that cascaded_trans [of c1 ci c'] by (simp add: body_def)
      qed
      have "\<exists>c'. for_each children body c1 = Inr ((), c') \<and> cascaded c1 c' \<and> cascaded c1 c'
          \<and> (\<forall>x\<in>set children. node_value (obj c' x) = VNone)"
      proof (rule for_each_total [where I = "cascaded c1" and S = cascaded
            and Post = "\<lambda>x c. node_value (obj c x) = VNone"])
        show "cascaded c1 c1" by (rule cascaded_refl)
      next
        fix x ci assume "x \<in> set children" "cascaded c1 ci"
        from step [OF this(2), of x] this(2)
        show "\<exists>c'. body x ci = Inr ((), c') \<and> cascaded c1 c' \<and> cascaded ci c'
            \<and> node_value (obj c' x) = VNone"
          by blast
      next
        show "cascaded a a" for a by (rule cascaded_refl)
      next
        show "cascaded a b \<Longrightarrow> cascaded b d \<Longrightarrow> cascaded a d" for a b d
          by (rule cascaded_trans)
      next
        show "node_value (obj a x) = VNone \<Longrightarrow> cascaded a b \<Longrightarrow> node_value (obj b x) = VNone"
          for x a b
          using cleared_only_None [OF cascaded_cleared_only, of a b x] by (simp add: obj_def)
      qed
      then obtain c2 where c2: "for_each children body c1 = Inr ((), c2)" "cascaded c1 c2"
        "\<forall>x\<in>set children. node_value (obj c2 x) = VNone"
        by blast
      have co2: "cleared_only c1 c2" using c2(2) by (rule cascaded_cleared_only)
      have g1: "dep_graph c1 = dep_graph c" by (simp add: c1_def)
      have "cascaded c c2"
      proof (rule cascadedI)
        show "cleared_only c c2"
          using co1 co2 by (rule cleared_only_trans)
      next
        fix w s
        assume h: "node_value (heap c w) \<noteq> VNone" "node_value (heap c2 w) = VNone"
          "w \<in> set (nodes (dep_graph c))" "(w, s) \<in> set (edges (dep_graph c))"
        show "node_value (heap c2 s) = VNone"
        proof (cases "w = cell")
          case True
          with h(4) have "s \<in> set children"
            by (force simp add: children_def)
          with c2(3) show ?thesis by (simp add: obj_def)
        next
          case False
          with other h(1) have "node_value (heap c1 w) \<noteq> VNone" by simp
          then show ?thesis
            by (rule cascadedD [OF c2(2) _ h(2)]) (simp_all add: g1 h)
        qed
      qed
      moreover have "node_value (obj c2 cell) = VNone"
        using cleared_only_None [OF co2, of cell] v1 by (simp add: obj_def)
      ultimately show ?thesis
        using unfold c2(1) by simp
    qed
  qed
qed

lemma for_each_inv:
  assumes "for_each xs f c = Inr ((), c')" and "I c"
    and step: "\<And>x c c'. x \<in> set xs \<Longrightarrow> I c \<Longrightarrow> f x c = Inr ((), c') \<Longrightarrow> I c'"
  shows "I c'"
  using assms(1,2) step
proof (induction xs arbitrary: c)
  case Nil
  then show ?case by (simp add: return_def)
next
  case (Cons x xs)
  from Cons.prems(1) obtain c1 where c1: "f x c = Inr ((), c1)" "for_each xs f c1 = Inr ((), c')"
    by (auto simp add: seq_def bind_def split: sum.splits)
  have "I c1"
    using Cons.prems(2) c1(1) by (intro Cons.prems(3) [of x c c1]) simp_all
  moreover have "\<And>y s s'. y \<in> set xs \<Longrightarrow> I s \<Longrightarrow> f y s = Inr ((), s') \<Longrightarrow> I s'"
    using Cons.prems(3) by (meson list.set_intros(2))
  ultimately show ?case
    using c1(2) by (intro Cons.IH [of c1])
qed

lemma cached_edges_mono:
  assumes "cleared_only c c'"
  shows "cached_edges c' \<subseteq> cached_edges c"
  using assms cleared_only_None [OF assms]
  by (auto simp add: cached_edges_def cleared_only_def obj_def)

lemma reset_within:
  "reset' n cell c = Inr ((), c') \<Longrightarrow>
   cleared_only c c' \<and> c'\<lparr>heap := heap c, log_records := log_records c\<rparr> = c \<and>
   (\<forall>r. heap c' r \<noteq> heap c r \<longrightarrow> (cell, r) \<in> (cached_edges c)\<^sup>*)"
proof (induction n arbitrary: cell c c')
  case 0
  then show ?case by simp
next
  case (Suc n)
  show ?case
  proof (cases "node_value (obj c cell) = VNone")
    case True
    with Suc.prems show ?thesis by (simp add: skip_def cleared_only_refl)
  next
    case False
    define c1 where "c1 = c\<lparr>log_records := log_records c @
        [Log INFO ''Resetting {}'' [AStr (node_address (obj c cell))]],
        heap := (heap c)(cell := node_set_value VNone (heap c cell))\<rparr>"
    define I where "I = (\<lambda>s. cleared_only c s \<and>
          s\<lparr>heap := heap c, log_records := log_records c\<rparr> = c \<and>
          (\<forall>q. heap s q \<noteq> heap c q \<longrightarrow> (cell, q) \<in> (cached_edges c)\<^sup>*))"
    have I1: "I c1"
      by (simp add: I_def c1_def cleared_only_def)
    show ?thesis
    proof (cases "cell \<in> set (nodes (dep_graph c))")
      case False
      have "reset' (Suc n) cell c = Inr ((), c1)"
        using False \<open>node_value (obj c cell) \<noteq> VNone\<close>
        by (simp add: monad_defs log_call_def assign_value_def set_obj_def obj_def c1_def
            successors_def)
      with Suc.prems have "c' = c1" by simp
      with I1 show ?thesis by (simp add: I_def)
    next
      case True
      define children where
        "children = map snd (filter (\<lambda>e. fst e = cell) (edges (dep_graph c)))"
      define body where "body = (\<lambda>child_cell c.
          if node_value (obj c child_cell) \<noteq> VNone then reset' n child_cell c else skip c)"
      have unfold: "reset' (Suc n) cell c = for_each children body c1"
        using True \<open>node_value (obj c cell) \<noteq> VNone\<close>
        by (simp add: monad_defs log_call_def assign_value_def set_obj_def obj_def c1_def
            successors_def children_def body_def)
      have "I c'"
      proof (rule for_each_inv [where I = I and xs = children and f = body and c = c1])
        show "for_each children body c1 = Inr ((), c')"
          using unfold Suc.prems(1) by simp
        show "I c1" by (rule I1)
      next
        fix x s s'
        assume x: "x \<in> set children" and Is: "I s" and run: "body x s = Inr ((), s')"
        show "I s'"
        proof (cases "node_value (obj s x) = VNone")
          case True
          with run Is show ?thesis by (simp add: body_def skip_def)
        next
          case False
          with run have run': "reset' n x s = Inr ((), s')"
            by (simp add: body_def)
          have cs: "cleared_only c s"
            using Is by (simp add: I_def)
          have fs: "s\<lparr>heap := heap c, log_records := log_records c\<rparr> = c"
            using Is by (simp add: I_def)
          note ih = Suc.IH [OF run']
          have xc: "(cell, x) \<in> cached_edges c"
          proof -
            have "(cell, x) \<in> set (edges (dep_graph c))"
              using x by (auto simp add: children_def)
            moreover have "node_value (obj c x) \<noteq> VNone"
              using False cleared_only_None [OF cs, of x] by (auto simp add: obj_def)
            ultimately show ?thesis
              using True by (simp add: cached_edges_def)
          qed
          have sub: "(cached_edges s)\<^sup>* \<subseteq> (cached_edges c)\<^sup>*"
            using cached_edges_mono [OF cs] by (rule rtrancl_mono)
          have within: "(cell, q) \<in> (cached_edges c)\<^sup>*" if "heap s' q \<noteq> heap c q" for q
          proof (cases "heap s' q = heap s q")
            case True
            with that Is show ?thesis by (simp add: I_def)
          next
            case False
            with ih have "(x, q) \<in> (cached_edges s)\<^sup>*"
              by blast
            with sub have "(x, q) \<in> (cached_edges c)\<^sup>*" by blast
            with xc show ?thesis by (meson converse_rtrancl_into_rtrancl)
          qed
          have "cleared_only s s'"
            using ih by blast
          with cs have cs': "cleared_only c s'"
            by (rule cleared_only_trans)
          have "s'\<lparr>heap := heap s, log_records := log_records s\<rparr> = s"
            using ih by blast
          then have "s'\<lparr>heap := heap s, log_records := log_records s\<rparr>
              \<lparr>heap := heap c, log_records := log_records c\<rparr>
              = s\<lparr>heap := heap c, log_records := log_records c\<rparr>"
            by simp
          then have "s'\<lparr>heap := heap c, log_records := log_records c\<rparr> = c"
            using fs by simp
          with cs' within show ?thesis by (simp add: I_def)
        qed
      qed
      then show ?thesis by (simp add: I_def)
    qed
  qed
qed


lemma cached_edges_target:
  "(a, r) \<in> (cached_edges c)\<^sup>* \<Longrightarrow> node_value (obj c a) \<noteq> VNone \<Longrightarrow>
   node_value (obj c r) \<noteq> VNone"
  by (induction rule: rtrancl_induct) (simp_all add: cached_edges_def)

lemma reset_exact:
  assumes "cached c < n" and "node_value (obj c cell) \<noteq> VNone"
  shows "\<exists>c'. reset' n cell c = Inr ((), c') \<and>
           c'\<lparr>log_records := log_records c\<rparr> =
             c\<lparr>heap := (\<lambda>r. if (cell, r) \<in> (cached_edges c)\<^sup>*
                              then node_set_value VNone (heap c r) else heap c r)\<rparr>"
proof -
  from reset_total [OF assms(1), of cell] obtain c' where
    run: "reset' n cell c = Inr ((), c')" and casc: "cascaded c c'"
    and top: "node_value (obj c' cell) = VNone"
    by blast
  note within = reset_within [OF run]
  have co: "cleared_only c c'"
    using casc by (rule cascaded_cleared_only)
  have lower: "node_value (heap c' r) = VNone" if "(cell, r) \<in> (cached_edges c)\<^sup>*" for r
    using that
  proof (induction rule: rtrancl_induct)
    case base
    then show ?case using top by (simp add: obj_def)
  next
    case (step u w)
    have "node_value (obj c u) \<noteq> VNone"
      using step.hyps(1) assms(2) by (rule cached_edges_target)
    then show ?case
      using step.IH step.hyps(2)
      by (intro cascadedD [OF casc, of u w]) (simp_all add: obj_def cached_edges_def)
  qed
  have heap': "heap c' = (\<lambda>r. if (cell, r) \<in> (cached_edges c)\<^sup>*
                              then node_set_value VNone (heap c r) else heap c r)"
  proof (rule ext)
    fix r
    show "heap c' r = (if (cell, r) \<in> (cached_edges c)\<^sup>*
                              then node_set_value VNone (heap c r) else heap c r)"
    proof (cases "(cell, r) \<in> (cached_edges c)\<^sup>*")
      case True
      from co have "heap c' r = heap c r \<or> heap c' r = node_set_value VNone (heap c r)"
        by (simp add: cleared_only_def)
      then have "heap c' r = node_set_value VNone (heap c r)"
      proof
        assume e: "heap c' r = heap c r"
        with lower [OF True] have "node_value (heap c r) = VNone" by simp
        then have "node_set_value VNone (heap c r) = heap c r"
          using node_set_value_same [of "heap c r"] by simp
        with e show ?thesis by simp
      qed
      with True show ?thesis by simp
    next
      case False
      with within show ?thesis by auto
    qed
  qed
  have "c'\<lparr>heap := heap c, log_records := log_records c\<rparr> = c"
    using within by blast
  then have "c'\<lparr>heap := heap c, log_records := log_records c\<rparr>\<lparr>heap := heap c'\<rparr>
      = c\<lparr>heap := heap c'\<rparr>"
    by simp
  then have "c'\<lparr>log_records := log_records c\<rparr> = c\<lparr>heap := heap c'\<rparr>"
    by simp
  with run heap' show ?thesis by simp
qed

lemma spec_evaluate_eq:
  "evaluate ten spec_env (Addr ''S!C1'') spec_graph =
     Inr (VInt 7,
          \<lparr>eval_ctx = Some (),
             excel = Some (ExcelOpxWrapper (example_sheet 2) ''S''),
             filename = ''book.xlsx'', excel_file_md5_digest = None,
             log = Logger ''pycel'',
             dep_graph =
               \<lparr>nodes =
                  [0, Suc 0, Suc (Suc 0), Suc (Suc (Suc 0)),
                   Suc (Suc (Suc (Suc 0)))],
                  edges =
                    [(Suc (Suc 0), Suc 0), (Suc (Suc (Suc 0)), 0),
                     (Suc (Suc (Suc (Suc 0))), Suc (Suc (Suc 0)))]\<rparr>,
             cell_map =
               [(''S!C1'', 0), (''S!D1'', Suc 0), (''S!E1'', Suc (Suc 0)),
                (''S!B1'', Suc (Suc (Suc 0))),
                (''S!A1'', Suc (Suc (Suc (Suc 0))))],
             graph_todos = Some [], range_todos = Some [], extra_data = None,
             formula_cells_list = None, files = [],
             heap =
               (\<lambda>r. CellRange
                     \<lparr>r_address = [], r_addresses = [], r_value = VNone\<rparr>)
               (Suc 0 :=
                  Cell
                   \<lparr>c_address = ''S!D1'',
                      c_formula =
                        Some
                         \<lparr>f_python_code = ''S!E1*2'',
                            f_needed_addresses = [''S!E1''],
                            f_eval =
                              EvalCell ''S!E1''
                               (case_val (Return VALUE_ERROR)
                                 (\<lambda>i. Return (VInt (i * 2)))
                                 (\<lambda>list. Return VALUE_ERROR)
                                 (\<lambda>list. Return VALUE_ERROR)
                                 (\<lambda>list. Return VALUE_ERROR))\<rparr>,
                      c_value = VNone, c_id = Suc (Suc 0)\<rparr>,
                  Suc (Suc 0) :=
                    Cell
                     \<lparr>c_address = ''S!E1'', c_formula = None,
                        c_value = VInt 4, c_id = Suc (Suc (Suc 0))\<rparr>,
                  Suc (Suc (Suc (Suc 0))) :=
                    Cell
                     \<lparr>c_address = ''S!A1'', c_formula = None,
                        c_value = VInt 2,
                        c_id = Suc (Suc (Suc (Suc (Suc 0))))\<rparr>,
                  Suc (Suc (Suc 0)) :=
                    Cell
                     \<lparr>c_address = ''S!B1'',
                        c_formula =
                          Some
                           \<lparr>f_python_code = ''g(S!A1)'',
                              f_needed_addresses = [''S!A1''],
                              f_eval =
                                EvalCell ''S!A1''
                                 (case_val (Return VALUE_ERROR)
                                   (\<lambda>i. Return (VInt (i * 3)))
                                   (\<lambda>list. Return VALUE_ERROR)
                                   (\<lambda>list. Return VALUE_ERROR)
                                   (\<lambda>list. Return VALUE_ERROR))\<rparr>,
                        c_value = VInt 6, c_id = Suc (Suc (Suc (Suc 0)))\<rparr>,
                  0 := Cell
                        \<lparr>c_address = ''S!C1'',
                           c_formula =
                             Some
                              \<lparr>f_python_code = ''f(S!B1)'',
                                 f_needed_addresses = [''S!B1''],
                                 f_eval =
                                   EvalCell ''S!B1''
                                    (case_val (Return VALUE_ERROR)
                                      (\<lambda>i. Return (VInt (i + 1)))
                                      (\<lambda>list. Return VALUE_ERROR)
                                      (\<lambda>list. Return VALUE_ERROR)
                                      (\<lambda>list. Return VALUE_ERROR))\<rparr>,
                           c_value = VInt 7, c_id = Suc 0\<rparr>),
             next_ref = Suc (Suc (Suc (Suc (Suc 0)))),
             ctr = Suc (Suc (Suc (Suc (Suc 0)))),
             log_records =
               [Log DEBUG ''Handling {}'' [AStr ''S!D1''],
                Log DEBUG ''Handling {}'' [AStr ''S!C1''],
                Log DEBUG ''Handling {}'' [AStr ''S!B1''],
                Log INFO
                 ''Graph construction done, %s nodes, %s edges, %s self.cell_map entries''
                 [ANat (Suc (Suc (Suc (Suc (Suc 0))))),
                  ANat (Suc (Suc (Suc 0))),
                  ANat (Suc (Suc (Suc (Suc (Suc 0)))))],
                Log DEBUG ''Evaluating: {}, {}''
                 [AStr ''S!C1'', AStr ''f(S!B1)''],
                Log DEBUG ''Evaluating: {}, {}''
                 [AStr ''S!B1'', AStr ''g(S!A1)''],
                Log INFO ''Cell %s evaluated to %s (%s)''
                 [AStr ''S!B1'', AVal (VInt 6)],
                Log INFO ''Cell %s evaluated to %s (%s)''
                 [AStr ''S!C1'', AVal (VInt 7)]]\<rparr>)"
  unfolding spec_graph_def example_graph_eq
  by (simp add: run_defs spec_env_def example_env_def ten_def del: methods_at.simps
      cong: weak_congs)

lemmas spec_evaluated_eq = spec_evaluated_def [unfolded spec_evaluate_eq state_of_def, simplified]

text \<open>
  C2. Let \<open>A\<close>, \<open>B\<close> and \<open>C\<close> be nodes with cached values, with edges from \<open>A\<close> to \<open>B\<close>
  and from \<open>B\<close> to \<open>C\<close> in the dependency graph, in a graph of any shape otherwise, and
  let \<open>v\<close> be a value that is not a list. With a recursion limit above the number of
  cached nodes, \<open>set_value\<close> at the address of \<open>A\<close> returns. When \<open>v\<close> differs from the
  cached value of \<open>A\<close>, the resulting state is, up to the log, the initial state in which
  \<open>A\<close> holds \<open>v\<close>, every other node that is reachable from \<open>A\<close> along edges of the graph
  into successors with a cached value has had its value cleared, and every other object
  is unchanged: the cascade descends only into cached successors, and \<open>B\<close> and \<open>C\<close> are
  among the cleared nodes. When \<open>v\<close> equals the cached value of \<open>A\<close>, the state is
  unchanged, and so are the cached values of \<open>B\<close> and \<open>C\<close>.
\<close>

theorem set_value_cascade:
  assumes "cell_map_get c a = Some rA"
    and "(rA, rB) \<in> set (edges (dep_graph c))" and "(rB, rC) \<in> set (edges (dep_graph c))"
    and "rA \<in> set (nodes (dep_graph c))" and "rB \<in> set (nodes (dep_graph c))"
    and "rB \<noteq> rA" and "rC \<noteq> rA"
    and "node_value (obj c rA) \<noteq> VNone" and "node_value (obj c rB) \<noteq> VNone"
    and "node_value (obj c rC) \<noteq> VNone"
    and "\<not> list_like v" and "cached c < n"
  shows "\<exists>c'. set_value n E (Addr a) v c = Inr ((), c') \<and>
           (if v \<noteq> node_value (obj c rA)
            then c'\<lparr>log_records := log_records c\<rparr> =
                   c\<lparr>heap := (\<lambda>r. if r = rA then node_set_value v (heap c rA)
                                    else if (rA, r) \<in> (cached_edges c)\<^sup>*
                                    then node_set_value VNone (heap c r) else heap c r)\<rparr>
                 \<and> (rA, rB) \<in> (cached_edges c)\<^sup>* \<and> (rA, rC) \<in> (cached_edges c)\<^sup>*
                 \<and> node_value (obj c' rA) = v
                 \<and> node_value (obj c' rB) = VNone \<and> node_value (obj c' rC) = VNone
            else c' = c)"
proof (cases "v = node_value (obj c rA)")
  case True
  then show ?thesis
    using assms(1,11)
    by (simp add: set_value_def set_value1_def monad_defs in_cell_map_def cell_map_item_def)
next
  case False
  let ?H = "\<lambda>r. if (rA, r) \<in> (cached_edges c)\<^sup>*
                 then node_set_value VNone (heap c r) else heap c r"
  from reset_exact [OF assms(12) assms(8)] obtain c1 where
    c1: "reset' n rA c = Inr ((), c1)"
      "c1\<lparr>log_records := log_records c\<rparr> = c\<lparr>heap := ?H\<rparr>"
    by blast
  have h1: "heap c1 = ?H"
  proof -
    have "heap (c1\<lparr>log_records := log_records c\<rparr>) = heap (c\<lparr>heap := ?H\<rparr>)"
      using c1(2) by simp
    then show ?thesis by simp
  qed
  define c' where "c' = c1\<lparr>heap := (heap c1)(rA := node_set_value v (heap c1 rA))\<rparr>"
  have run: "set_value n E (Addr a) v c = Inr ((), c')"
    using assms(1,8,11) False c1(1)
    by (simp add: set_value_def set_value1_def monad_defs in_cell_map_def cell_map_item_def
        assign_value_def set_obj_def obj_def c'_def)
  have ab: "(rA, rB) \<in> cached_edges c" and bc: "(rB, rC) \<in> cached_edges c"
    using assms(2-5,9,10) by (simp_all add: cached_edges_def)
  have rb: "(rA, rB) \<in> (cached_edges c)\<^sup>*"
    using ab by blast
  have rc: "(rA, rC) \<in> (cached_edges c)\<^sup>*"
    using ab bc by (meson r_into_rtrancl rtrancl_trans)
  have "c'\<lparr>log_records := log_records c\<rparr>
      = c1\<lparr>log_records := log_records c\<rparr>\<lparr>heap := (heap c1)(rA := node_set_value v (heap c1 rA))\<rparr>"
    by (simp add: c'_def)
  also have "\<dots> = c\<lparr>heap := (heap c1)(rA := node_set_value v (heap c1 rA))\<rparr>"
    unfolding c1(2) by simp
  also have "(heap c1)(rA := node_set_value v (heap c1 rA))
      = (\<lambda>r. if r = rA then node_set_value v (heap c rA)
              else if (rA, r) \<in> (cached_edges c)\<^sup>*
              then node_set_value VNone (heap c r) else heap c r)"
    unfolding h1 by (rule ext) simp
  finally have state: "c'\<lparr>log_records := log_records c\<rparr> =
      c\<lparr>heap := (\<lambda>r. if r = rA then node_set_value v (heap c rA)
                       else if (rA, r) \<in> (cached_edges c)\<^sup>*
                       then node_set_value VNone (heap c r) else heap c r)\<rparr>" .
  have "node_value (obj c' rB) = VNone \<and> node_value (obj c' rC) = VNone"
    using rb rc assms(6,7) by (simp add: c'_def obj_def h1)
  moreover have "node_value (obj c' rA) = v"
    by (simp add: c'_def obj_def)
  ultimately show ?thesis
    using run False state rb rc by simp
qed


theorem set_value_cascade_witness:
  "cell_map_get spec_evaluated ''S!A1'' = Some (Suc (Suc (Suc (Suc 0))))
   \<and> node_value (obj spec_evaluated (Suc (Suc (Suc (Suc 0))))) = VInt 2
   \<and> node_value (obj spec_evaluated (Suc (Suc (Suc 0)))) = VInt 6
   \<and> node_value (obj spec_evaluated 0) = VInt 7
   \<and> node_value (obj spec_evaluated (Suc (Suc 0))) = VInt 4
   \<and> node_value (obj (state_of (set_value ten spec_env (Addr ''S!A1'') (VInt 5) spec_evaluated))
         (Suc (Suc (Suc (Suc 0))))) = VInt 5
   \<and> node_value (obj (state_of (set_value ten spec_env (Addr ''S!A1'') (VInt 5) spec_evaluated))
         (Suc (Suc (Suc 0)))) = VNone
   \<and> node_value (obj (state_of (set_value ten spec_env (Addr ''S!A1'') (VInt 5) spec_evaluated))
         0) = VNone
   \<and> obj (state_of (set_value ten spec_env (Addr ''S!A1'') (VInt 5) spec_evaluated))
         (Suc (Suc 0)) = obj spec_evaluated (Suc (Suc 0))
   \<and> obj (state_of (set_value ten spec_env (Addr ''S!A1'') (VInt 5) spec_evaluated))
         (Suc 0) = obj spec_evaluated (Suc 0)
   \<and> set_value ten spec_env (Addr ''S!A1'') (VInt 2) spec_evaluated = Inr ((), spec_evaluated)"
proof -
  let ?A = "Suc (Suc (Suc (Suc 0)))" and ?B = "Suc (Suc (Suc 0))" and ?C = "0::nat"
  let ?E = "Suc (Suc 0)" and ?D = "Suc 0"
  have h1: "cell_map_get spec_evaluated ''S!A1'' = Some ?A"
    by (simp add: spec_evaluated_eq cell_map_get_def)
  have h2: "(?A, ?B) \<in> set (edges (dep_graph spec_evaluated))"
    and h3: "(?B, ?C) \<in> set (edges (dep_graph spec_evaluated))"
    and h4: "?A \<in> set (nodes (dep_graph spec_evaluated))"
    and h5: "?B \<in> set (nodes (dep_graph spec_evaluated))"
    by (simp_all add: spec_evaluated_eq)
  have h6: "?B \<noteq> ?A" and h7: "?C \<noteq> ?A"
    by simp_all
  have vA: "node_value (obj spec_evaluated ?A) = VInt 2"
    and vB: "node_value (obj spec_evaluated ?B) = VInt 6"
    and vC: "node_value (obj spec_evaluated ?C) = VInt 7"
    and vE: "node_value (obj spec_evaluated ?E) = VInt 4"
    by (simp_all add: spec_evaluated_eq obj_def)
  have h8: "node_value (obj spec_evaluated ?A) \<noteq> VNone"
    and h9: "node_value (obj spec_evaluated ?B) \<noteq> VNone"
    and h10: "node_value (obj spec_evaluated ?C) \<noteq> VNone"
    by (simp_all add: vA vB vC)
  have h12: "cached spec_evaluated < ten"
    by (simp add: cached_def spec_evaluated_eq obj_def ten_def)
  have l5: "\<not> list_like (VInt 5)" and l2: "\<not> list_like (VInt 2)"
    by simp_all
  have into: "\<not> (u, ?E) \<in> cached_edges spec_evaluated \<and> \<not> (u, ?D) \<in> cached_edges spec_evaluated"
    for u
    by (simp add: cached_edges_def spec_evaluated_eq obj_def)
  have nE: "(?A, ?E) \<notin> (cached_edges spec_evaluated)\<^sup>*"
  proof
    assume "(?A, ?E) \<in> (cached_edges spec_evaluated)\<^sup>*"
    then show False
      using into by (cases rule: rtranclE) simp_all
  qed
  have nD: "(?A, ?D) \<notin> (cached_edges spec_evaluated)\<^sup>*"
  proof
    assume "(?A, ?D) \<in> (cached_edges spec_evaluated)\<^sup>*"
    then show False
      using into by (cases rule: rtranclE) simp_all
  qed
  from set_value_cascade [OF h1 h2 h3 h4 h5 h6 h7 h8 h9 h10 l5 h12, of spec_env]
  obtain c' where c': "set_value ten spec_env (Addr ''S!A1'') (VInt 5) spec_evaluated = Inr ((), c')"
    "node_value (obj c' ?A) = VInt 5" "node_value (obj c' ?B) = VNone"
    "node_value (obj c' ?C) = VNone"
    and st: "c'\<lparr>log_records := log_records spec_evaluated\<rparr> =
       spec_evaluated\<lparr>heap := (\<lambda>r. if r = ?A then node_set_value (VInt 5) (heap spec_evaluated ?A)
                        else if (?A, r) \<in> (cached_edges spec_evaluated)\<^sup>*
                        then node_set_value VNone (heap spec_evaluated r)
                        else heap spec_evaluated r)\<rparr>"
    using vA by auto
  have "heap (c'\<lparr>log_records := log_records spec_evaluated\<rparr>) r =
       heap (spec_evaluated\<lparr>heap := (\<lambda>r. if r = ?A then node_set_value (VInt 5) (heap spec_evaluated ?A)
                        else if (?A, r) \<in> (cached_edges spec_evaluated)\<^sup>*
                        then node_set_value VNone (heap spec_evaluated r)
                        else heap spec_evaluated r)\<rparr>) r" for r
    unfolding st ..
  then have hp: "heap c' r = (if r = ?A then node_set_value (VInt 5) (heap spec_evaluated ?A)
                        else if (?A, r) \<in> (cached_edges spec_evaluated)\<^sup>*
                        then node_set_value VNone (heap spec_evaluated r)
                        else heap spec_evaluated r)" for r
    by simp
  have frame: "obj c' ?E = obj spec_evaluated ?E" "obj c' ?D = obj spec_evaluated ?D"
    using nE nD by (simp_all add: obj_def hp)
  from set_value_cascade [OF h1 h2 h3 h4 h5 h6 h7 h8 h9 h10 l2 h12, of spec_env]
  have same: "set_value ten spec_env (Addr ''S!A1'') (VInt 2) spec_evaluated
      = Inr ((), spec_evaluated)"
    using vA by auto
  show ?thesis
    using h1 vA vB vC vE c' frame same by (simp add: state_of_def)
qed

subsection \<open>Trimming the chain of the example\<close>

lemma example_evaluate_eq:
  "evaluate ten (example_env g f) (Addr ''S!C1'') (example_graph g f va) =
     Inr (VInt (f (g va)),
          \<lparr>eval_ctx = Some (),
             excel = Some (ExcelOpxWrapper (example_sheet va) ''S''),
             filename = ''book.xlsx'', excel_file_md5_digest = None,
             log = Logger ''pycel'',
             dep_graph =
               \<lparr>nodes =
                  [0, Suc 0, Suc (Suc 0), Suc (Suc (Suc 0)),
                   Suc (Suc (Suc (Suc 0)))],
                  edges =
                    [(Suc (Suc 0), Suc 0), (Suc (Suc (Suc 0)), 0),
                     (Suc (Suc (Suc (Suc 0))), Suc (Suc (Suc 0)))]\<rparr>,
             cell_map =
               [(''S!C1'', 0), (''S!D1'', Suc 0), (''S!E1'', Suc (Suc 0)),
                (''S!B1'', Suc (Suc (Suc 0))),
                (''S!A1'', Suc (Suc (Suc (Suc 0))))],
             graph_todos = Some [], range_todos = Some [], extra_data = None,
             formula_cells_list = None, files = [],
             heap =
               (\<lambda>r. CellRange
                     \<lparr>r_address = [], r_addresses = [], r_value = VNone\<rparr>)
               (Suc 0 :=
                  Cell
                   \<lparr>c_address = ''S!D1'',
                      c_formula =
                        Some
                         \<lparr>f_python_code = ''S!E1*2'',
                            f_needed_addresses = [''S!E1''],
                            f_eval =
                              EvalCell ''S!E1''
                               (case_val (Return VALUE_ERROR)
                                 (\<lambda>i. Return (VInt (i * 2)))
                                 (\<lambda>list. Return VALUE_ERROR)
                                 (\<lambda>list. Return VALUE_ERROR)
                                 (\<lambda>list. Return VALUE_ERROR))\<rparr>,
                      c_value = VNone, c_id = Suc (Suc 0)\<rparr>,
                  Suc (Suc 0) :=
                    Cell
                     \<lparr>c_address = ''S!E1'', c_formula = None,
                        c_value = VInt 4, c_id = Suc (Suc (Suc 0))\<rparr>,
                  Suc (Suc (Suc (Suc 0))) :=
                    Cell
                     \<lparr>c_address = ''S!A1'', c_formula = None,
                        c_value = VInt va,
                        c_id = Suc (Suc (Suc (Suc (Suc 0))))\<rparr>,
                  Suc (Suc (Suc 0)) :=
                    Cell
                     \<lparr>c_address = ''S!B1'',
                        c_formula =
                          Some
                           \<lparr>f_python_code = ''g(S!A1)'',
                              f_needed_addresses = [''S!A1''],
                              f_eval =
                                EvalCell ''S!A1''
                                 (case_val (Return VALUE_ERROR)
                                   (\<lambda>i. Return (VInt (g i)))
                                   (\<lambda>list. Return VALUE_ERROR)
                                   (\<lambda>list. Return VALUE_ERROR)
                                   (\<lambda>list. Return VALUE_ERROR))\<rparr>,
                        c_value = VInt (g va),
                        c_id = Suc (Suc (Suc (Suc 0)))\<rparr>,
                  0 := Cell
                        \<lparr>c_address = ''S!C1'',
                           c_formula =
                             Some
                              \<lparr>f_python_code = ''f(S!B1)'',
                                 f_needed_addresses = [''S!B1''],
                                 f_eval =
                                   EvalCell ''S!B1''
                                    (case_val (Return VALUE_ERROR)
                                      (\<lambda>i. Return (VInt (f i)))
                                      (\<lambda>list. Return VALUE_ERROR)
                                      (\<lambda>list. Return VALUE_ERROR)
                                      (\<lambda>list. Return VALUE_ERROR))\<rparr>,
                           c_value = VInt (f (g va)), c_id = Suc 0\<rparr>),
             next_ref = Suc (Suc (Suc (Suc (Suc 0)))),
             ctr = Suc (Suc (Suc (Suc (Suc 0)))),
             log_records =
               [Log DEBUG ''Handling {}'' [AStr ''S!D1''],
                Log DEBUG ''Handling {}'' [AStr ''S!C1''],
                Log DEBUG ''Handling {}'' [AStr ''S!B1''],
                Log INFO
                 ''Graph construction done, %s nodes, %s edges, %s self.cell_map entries''
                 [ANat (Suc (Suc (Suc (Suc (Suc 0))))),
                  ANat (Suc (Suc (Suc 0))),
                  ANat (Suc (Suc (Suc (Suc (Suc 0)))))],
                Log DEBUG ''Evaluating: {}, {}''
                 [AStr ''S!C1'', AStr ''f(S!B1)''],
                Log DEBUG ''Evaluating: {}, {}''
                 [AStr ''S!B1'', AStr ''g(S!A1)''],
                Log INFO ''Cell %s evaluated to %s (%s)''
                 [AStr ''S!B1'', AVal (VInt (g va))],
                Log INFO ''Cell %s evaluated to %s (%s)''
                 [AStr ''S!C1'', AVal (VInt (f (g va)))]]\<rparr>)"
  unfolding example_graph_eq
  by (simp add: run_defs example_env_def ten_def del: methods_at.simps cong: weak_congs)

lemmas example_evaluated_eq =
  example_evaluated_def [unfolded example_evaluate_eq state_of_def, simplified]

lemma trim_input_A1_eq:
  "trim_graph ten (example_env g f) [''S!A1''] [''S!C1''] (example_graph g f va) =
     Inr ((),
          \<lparr>eval_ctx = None,
             excel = Some (ExcelOpxWrapper (example_sheet va) ''S''),
             filename = ''book.xlsx'', excel_file_md5_digest = None,
             log = Logger ''pycel'',
             dep_graph =
               \<lparr>nodes =
                  [0, Suc 0, Suc (Suc 0), Suc (Suc (Suc 0)),
                   Suc (Suc (Suc (Suc 0)))],
                  edges =
                    [(Suc (Suc 0), Suc 0), (Suc (Suc (Suc 0)), 0),
                     (Suc (Suc (Suc (Suc 0))), Suc (Suc (Suc 0)))]\<rparr>,
             cell_map =
               [(''S!C1'', 0), (''S!B1'', Suc (Suc (Suc 0))),
                (''S!A1'', Suc (Suc (Suc (Suc 0))))],
             graph_todos = Some [], range_todos = Some [], extra_data = None,
             formula_cells_list = None, files = [],
             heap =
               (\<lambda>r. CellRange
                     \<lparr>r_address = [], r_addresses = [], r_value = VNone\<rparr>)
               (0 := Cell
                      \<lparr>c_address = ''S!C1'',
                         c_formula =
                           Some
                            \<lparr>f_python_code = ''f(S!B1)'',
                               f_needed_addresses = [''S!B1''],
                               f_eval =
                                 EvalCell ''S!B1''
                                  (case_val (Return VALUE_ERROR)
                                    (\<lambda>i. Return (VInt (f i)))
                                    (\<lambda>list. Return VALUE_ERROR)
                                    (\<lambda>list. Return VALUE_ERROR)
                                    (\<lambda>list. Return VALUE_ERROR))\<rparr>,
                         c_value = VNone, c_id = Suc 0\<rparr>,
                  Suc 0 :=
                    Cell
                     \<lparr>c_address = ''S!D1'',
                        c_formula =
                          Some
                           \<lparr>f_python_code = ''S!E1*2'',
                              f_needed_addresses = [''S!E1''],
                              f_eval =
                                EvalCell ''S!E1''
                                 (case_val (Return VALUE_ERROR)
                                   (\<lambda>i. Return (VInt (i * 2)))
                                   (\<lambda>list. Return VALUE_ERROR)
                                   (\<lambda>list. Return VALUE_ERROR)
                                   (\<lambda>list. Return VALUE_ERROR))\<rparr>,
                        c_value = VNone, c_id = Suc (Suc 0)\<rparr>,
                  Suc (Suc 0) :=
                    Cell
                     \<lparr>c_address = ''S!E1'', c_formula = None,
                        c_value = VInt 4, c_id = Suc (Suc (Suc 0))\<rparr>,
                  Suc (Suc (Suc 0)) :=
                    Cell
                     \<lparr>c_address = ''S!B1'',
                        c_formula =
                          Some
                           \<lparr>f_python_code = ''g(S!A1)'',
                              f_needed_addresses = [''S!A1''],
                              f_eval =
                                EvalCell ''S!A1''
                                 (case_val (Return VALUE_ERROR)
                                   (\<lambda>i. Return (VInt (g i)))
                                   (\<lambda>list. Return VALUE_ERROR)
                                   (\<lambda>list. Return VALUE_ERROR)
                                   (\<lambda>list. Return VALUE_ERROR))\<rparr>,
                        c_value = VNone, c_id = Suc (Suc (Suc (Suc 0)))\<rparr>,
                  Suc (Suc (Suc (Suc 0))) :=
                    Cell
                     \<lparr>c_address = ''S!A1'', c_formula = None,
                        c_value = VInt va,
                        c_id = Suc (Suc (Suc (Suc (Suc 0))))\<rparr>),
             next_ref = Suc (Suc (Suc (Suc (Suc 0)))),
             ctr = Suc (Suc (Suc (Suc (Suc 0)))),
             log_records =
               [Log DEBUG ''Handling {}'' [AStr ''S!D1''],
                Log DEBUG ''Handling {}'' [AStr ''S!C1''],
                Log DEBUG ''Handling {}'' [AStr ''S!B1''],
                Log INFO
                 ''Graph construction done, %s nodes, %s edges, %s self.cell_map entries''
                 [ANat (Suc (Suc (Suc (Suc (Suc 0))))),
                  ANat (Suc (Suc (Suc 0))),
                  ANat (Suc (Suc (Suc (Suc (Suc 0)))))],
                Log INFO
                 ''Graph construction done, %s nodes, %s edges, %s self.cell_map entries''
                 [ANat (Suc (Suc (Suc (Suc (Suc 0))))),
                  ANat (Suc (Suc (Suc 0))),
                  ANat (Suc (Suc (Suc (Suc (Suc 0)))))],
                Log DEBUG ''Trimming {}'' [AStr ''S!A1'']]\<rparr>)"
  unfolding example_graph_eq
  by (simp add: trim_graph_def trim_built_def run_defs example_env_def ten_def del: methods_at.simps
      cong: weak_congs)

lemma trim_input_B1_eq:
  "trim_graph ten (example_env g f) [''S!B1''] [''S!C1''] (example_evaluated g f va) =
     Inr ((),
          \<lparr>eval_ctx = Some (),
             excel = Some (ExcelOpxWrapper (example_sheet va) ''S''),
             filename = ''book.xlsx'', excel_file_md5_digest = None,
             log = Logger ''pycel'',
             dep_graph =
               \<lparr>nodes =
                  [0, Suc 0, Suc (Suc 0), Suc (Suc (Suc 0)),
                   Suc (Suc (Suc (Suc 0)))],
                  edges =
                    [(Suc (Suc 0), Suc 0), (Suc (Suc (Suc 0)), 0),
                     (Suc (Suc (Suc (Suc 0))), Suc (Suc (Suc 0)))]\<rparr>,
             cell_map = [(''S!C1'', 0), (''S!B1'', Suc (Suc (Suc 0)))],
             graph_todos = Some [], range_todos = Some [], extra_data = None,
             formula_cells_list = None, files = [],
             heap =
               (\<lambda>r. CellRange
                     \<lparr>r_address = [], r_addresses = [], r_value = VNone\<rparr>)
               (Suc 0 :=
                  Cell
                   \<lparr>c_address = ''S!D1'',
                      c_formula =
                        Some
                         \<lparr>f_python_code = ''S!E1*2'',
                            f_needed_addresses = [''S!E1''],
                            f_eval =
                              EvalCell ''S!E1''
                               (case_val (Return VALUE_ERROR)
                                 (\<lambda>i. Return (VInt (i * 2)))
                                 (\<lambda>list. Return VALUE_ERROR)
                                 (\<lambda>list. Return VALUE_ERROR)
                                 (\<lambda>list. Return VALUE_ERROR))\<rparr>,
                      c_value = VNone, c_id = Suc (Suc 0)\<rparr>,
                  Suc (Suc 0) :=
                    Cell
                     \<lparr>c_address = ''S!E1'', c_formula = None,
                        c_value = VInt 4, c_id = Suc (Suc (Suc 0))\<rparr>,
                  Suc (Suc (Suc (Suc 0))) :=
                    Cell
                     \<lparr>c_address = ''S!A1'', c_formula = None,
                        c_value = VInt va,
                        c_id = Suc (Suc (Suc (Suc (Suc 0))))\<rparr>,
                  0 := Cell
                        \<lparr>c_address = ''S!C1'',
                           c_formula =
                             Some
                              \<lparr>f_python_code = ''f(S!B1)'',
                                 f_needed_addresses = [''S!B1''],
                                 f_eval =
                                   EvalCell ''S!B1''
                                    (case_val (Return VALUE_ERROR)
                                      (\<lambda>i. Return (VInt (f i)))
                                      (\<lambda>list. Return VALUE_ERROR)
                                      (\<lambda>list. Return VALUE_ERROR)
                                      (\<lambda>list. Return VALUE_ERROR))\<rparr>,
                           c_value = VInt (f (g va)), c_id = Suc 0\<rparr>,
                  Suc (Suc (Suc 0)) :=
                    Cell
                     \<lparr>c_address = ''S!B1'', c_formula = None,
                        c_value = VInt (g va),
                        c_id = Suc (Suc (Suc (Suc 0)))\<rparr>),
             next_ref = Suc (Suc (Suc (Suc (Suc 0)))),
             ctr = Suc (Suc (Suc (Suc (Suc 0)))),
             log_records =
               [Log DEBUG ''Handling {}'' [AStr ''S!D1''],
                Log DEBUG ''Handling {}'' [AStr ''S!C1''],
                Log DEBUG ''Handling {}'' [AStr ''S!B1''],
                Log INFO
                 ''Graph construction done, %s nodes, %s edges, %s self.cell_map entries''
                 [ANat (Suc (Suc (Suc (Suc (Suc 0))))),
                  ANat (Suc (Suc (Suc 0))),
                  ANat (Suc (Suc (Suc (Suc (Suc 0)))))],
                Log DEBUG ''Evaluating: {}, {}''
                 [AStr ''S!C1'', AStr ''f(S!B1)''],
                Log DEBUG ''Evaluating: {}, {}''
                 [AStr ''S!B1'', AStr ''g(S!A1)''],
                Log INFO ''Cell %s evaluated to %s (%s)''
                 [AStr ''S!B1'', AVal (VInt (g va))],
                Log INFO ''Cell %s evaluated to %s (%s)''
                 [AStr ''S!C1'', AVal (VInt (f (g va)))],
                Log INFO
                 ''Graph construction done, %s nodes, %s edges, %s self.cell_map entries''
                 [ANat (Suc (Suc (Suc (Suc (Suc 0))))),
                  ANat (Suc (Suc (Suc 0))),
                  ANat (Suc (Suc (Suc (Suc (Suc 0)))))],
                Log DEBUG ''Trimming {}'' [AStr ''S!B1'']]\<rparr>)"
  unfolding example_evaluated_eq
  by (simp add: trim_graph_def trim_built_def run_defs example_env_def ten_def del: methods_at.simps
      cong: weak_congs)

text \<open>
  C3, for the workbook of the example with any two formulas \<open>g\<close> and \<open>f\<close> over the integers
  and any number in \<open>A1\<close>. \<open>trim_graph\<close> with input \<open>A1\<close> and output \<open>C1\<close> returns, drops \<open>D1\<close>
  (and its precedent \<open>E1\<close>) from \<open>cell_map\<close> and keeps \<open>C1\<close>, \<open>B1\<close> and \<open>A1\<close>; \<open>evaluate\<close> of
  \<open>C1\<close> gives \<open>f (g va)\<close> before and after. With input \<open>B1\<close> on the evaluated graph, \<open>B1\<close> is
  needed for its value only: it is kept without its formula and with its last value
  \<open>g va\<close>, \<open>A1\<close> is dropped, and \<open>evaluate\<close> of \<open>C1\<close> is still \<open>f (g va)\<close>.
\<close>

theorem trim_graph_chain:
  "map_sum id fst (trim_graph ten (example_env g f) [''S!A1''] [''S!C1''] (example_graph g f va))
     = Inr ()
   \<and> map fst (cell_map (state_of
         (trim_graph ten (example_env g f) [''S!A1''] [''S!C1''] (example_graph g f va))))
       = [''S!C1'', ''S!B1'', ''S!A1'']
   \<and> map_sum id fst (evaluate ten (example_env g f) (Addr ''S!C1'') (example_graph g f va))
       = Inr (VInt (f (g va)))
   \<and> map_sum id fst (evaluate ten (example_env g f) (Addr ''S!C1'') (state_of
         (trim_graph ten (example_env g f) [''S!A1''] [''S!C1''] (example_graph g f va))))
       = Inr (VInt (f (g va)))
   \<and> map fst (cell_map (state_of
         (trim_graph ten (example_env g f) [''S!B1''] [''S!C1''] (example_evaluated g f va))))
       = [''S!C1'', ''S!B1'']
   \<and> obj (state_of
         (trim_graph ten (example_env g f) [''S!B1''] [''S!C1''] (example_evaluated g f va)))
         (Suc (Suc (Suc 0)))
       = Cell \<lparr>c_address = ''S!B1'', c_formula = None, c_value = VInt (g va),
               c_id = Suc (Suc (Suc (Suc 0)))\<rparr>
   \<and> map_sum id fst (evaluate ten (example_env g f) (Addr ''S!C1'') (state_of
         (trim_graph ten (example_env g f) [''S!B1''] [''S!C1''] (example_evaluated g f va))))
       = Inr (VInt (f (g va)))"
  unfolding trim_input_A1_eq trim_input_B1_eq example_evaluate_eq
  by (simp add: state_of_def run_defs example_env_def ten_def del: methods_at.simps
      cong: weak_congs)

subsection \<open>Inputs of \<open>trim_graph\<close> that are not in the graph\<close>

lemma spec_evaluate_Z9_eq:
  "evaluate ten spec_env (Addr ''S!Z9'') spec_graph =
     Inr (VNone,
          \<lparr>eval_ctx = None,
             excel = Some (ExcelOpxWrapper (example_sheet 2) ''S''),
             filename = ''book.xlsx'', excel_file_md5_digest = None,
             log = Logger ''pycel'',
             dep_graph =
               \<lparr>nodes =
                  [0, Suc 0, Suc (Suc 0), Suc (Suc (Suc 0)),
                   Suc (Suc (Suc (Suc 0)))],
                  edges =
                    [(Suc (Suc 0), Suc 0), (Suc (Suc (Suc 0)), 0),
                     (Suc (Suc (Suc (Suc 0))), Suc (Suc (Suc 0)))]\<rparr>,
             cell_map =
               [(''S!C1'', 0), (''S!D1'', Suc 0), (''S!E1'', Suc (Suc 0)),
                (''S!B1'', Suc (Suc (Suc 0))),
                (''S!A1'', Suc (Suc (Suc (Suc 0)))),
                (''S!Z9'', Suc (Suc (Suc (Suc (Suc 0)))))],
             graph_todos = Some [], range_todos = Some [], extra_data = None,
             formula_cells_list = None, files = [],
             heap =
               (\<lambda>r. CellRange
                     \<lparr>r_address = [], r_addresses = [], r_value = VNone\<rparr>)
               (0 := Cell
                      \<lparr>c_address = ''S!C1'',
                         c_formula =
                           Some
                            \<lparr>f_python_code = ''f(S!B1)'',
                               f_needed_addresses = [''S!B1''],
                               f_eval =
                                 EvalCell ''S!B1''
                                  (case_val (Return VALUE_ERROR)
                                    (\<lambda>i. Return (VInt (i + 1)))
                                    (\<lambda>list. Return VALUE_ERROR)
                                    (\<lambda>list. Return VALUE_ERROR)
                                    (\<lambda>list. Return VALUE_ERROR))\<rparr>,
                         c_value = VNone, c_id = Suc 0\<rparr>,
                  Suc 0 :=
                    Cell
                     \<lparr>c_address = ''S!D1'',
                        c_formula =
                          Some
                           \<lparr>f_python_code = ''S!E1*2'',
                              f_needed_addresses = [''S!E1''],
                              f_eval =
                                EvalCell ''S!E1''
                                 (case_val (Return VALUE_ERROR)
                                   (\<lambda>i. Return (VInt (i * 2)))
                                   (\<lambda>list. Return VALUE_ERROR)
                                   (\<lambda>list. Return VALUE_ERROR)
                                   (\<lambda>list. Return VALUE_ERROR))\<rparr>,
                        c_value = VNone, c_id = Suc (Suc 0)\<rparr>,
                  Suc (Suc 0) :=
                    Cell
                     \<lparr>c_address = ''S!E1'', c_formula = None,
                        c_value = VInt 4, c_id = Suc (Suc (Suc 0))\<rparr>,
                  Suc (Suc (Suc 0)) :=
                    Cell
                     \<lparr>c_address = ''S!B1'',
                        c_formula =
                          Some
                           \<lparr>f_python_code = ''g(S!A1)'',
                              f_needed_addresses = [''S!A1''],
                              f_eval =
                                EvalCell ''S!A1''
                                 (case_val (Return VALUE_ERROR)
                                   (\<lambda>i. Return (VInt (i * 3)))
                                   (\<lambda>list. Return VALUE_ERROR)
                                   (\<lambda>list. Return VALUE_ERROR)
                                   (\<lambda>list. Return VALUE_ERROR))\<rparr>,
                        c_value = VNone, c_id = Suc (Suc (Suc (Suc 0)))\<rparr>,
                  Suc (Suc (Suc (Suc 0))) :=
                    Cell
                     \<lparr>c_address = ''S!A1'', c_formula = None,
                        c_value = VInt 2,
                        c_id = Suc (Suc (Suc (Suc (Suc 0))))\<rparr>,
                  Suc (Suc (Suc (Suc (Suc 0)))) :=
                    Cell
                     \<lparr>c_address = ''S!Z9'', c_formula = None,
                        c_value = VNone,
                        c_id = Suc (Suc (Suc (Suc (Suc (Suc 0)))))\<rparr>),
             next_ref = Suc (Suc (Suc (Suc (Suc (Suc 0))))),
             ctr = Suc (Suc (Suc (Suc (Suc (Suc 0))))),
             log_records =
               [Log DEBUG ''Handling {}'' [AStr ''S!D1''],
                Log DEBUG ''Handling {}'' [AStr ''S!C1''],
                Log DEBUG ''Handling {}'' [AStr ''S!B1''],
                Log INFO
                 ''Graph construction done, %s nodes, %s edges, %s self.cell_map entries''
                 [ANat (Suc (Suc (Suc (Suc (Suc 0))))),
                  ANat (Suc (Suc (Suc 0))),
                  ANat (Suc (Suc (Suc (Suc (Suc 0)))))],
                Log INFO
                 ''Graph construction done, %s nodes, %s edges, %s self.cell_map entries''
                 [ANat (Suc (Suc (Suc (Suc (Suc 0))))),
                  ANat (Suc (Suc (Suc 0))),
                  ANat (Suc (Suc (Suc (Suc (Suc (Suc 0))))))]]\<rparr>)"
  unfolding spec_graph_def example_graph_eq
  by (simp add: run_defs spec_env_def example_env_def example_sheet_def example_compile_def
      ten_def del: methods_at.simps cong: weak_congs)

lemmas spec_with_Z9_eq = spec_with_Z9_def [unfolded spec_evaluate_Z9_eq state_of_def, simplified]

text \<open>
  C6, as the code has it, for the loop over the inputs inside the \<open>try\<close> statement. An
  input that is no key of \<open>cell_map\<close> is logged with a warning and the loop goes on with
  the remaining inputs. An input that is a key of \<open>cell_map\<close> while its cell is no node of
  the dependency graph makes \<open>successors\<close> raise: when the input is not among the
  outputs, \<open>ValueError\<close> is raised, and when it is among the outputs, the exception is
  dropped and the loop ends without an error.
\<close>

theorem walk_inputs_absent:
  "(cell_map_get c addr = None \<longrightarrow>
      walk_inputs n outs (addr # rest) needed c =
        walk_inputs n outs rest needed
          (c\<lparr>log_records := log_records c @
               [Log WARNING ''Address {} not found in cell_map'' [AStr addr]]\<rparr>))
   \<and> (cell_map_get c addr = Some r \<and> r \<notin> set (nodes (dep_graph c)) \<longrightarrow>
      walk_inputs (Suc n) outs (addr # rest) needed c =
        (if addr \<in> set outs then Inr (needed, c) else Inl ValueError))"
  by (simp add: monad_defs log_call_def successors_def)

theorem walk_inputs_absent_witness:
  "cell_map_get spec_graph ''S!Z9'' = None
   \<and> walk_inputs ten [''S!C1''] [''S!Z9''] [] spec_graph =
       Inr ([], spec_graph\<lparr>log_records := log_records spec_graph @
               [Log WARNING ''Address {} not found in cell_map'' [AStr ''S!Z9'']]\<rparr>)
   \<and> cell_map_get spec_with_Z9 ''S!Z9'' = Some (Suc (Suc (Suc (Suc (Suc 0)))))
   \<and> Suc (Suc (Suc (Suc (Suc 0)))) \<notin> set (nodes (dep_graph spec_with_Z9))
   \<and> walk_inputs ten [''S!C1''] [''S!Z9''] [] spec_with_Z9 = Inl ValueError
   \<and> walk_inputs ten [''S!C1'', ''S!Z9''] [''S!Z9''] [] spec_with_Z9 = Inr ([], spec_with_Z9)"
proof -
  have h1: "cell_map_get spec_graph ''S!Z9'' = None"
    by (simp add: spec_graph_def example_graph_eq cell_map_get_def)
  have h2: "cell_map_get spec_with_Z9 ''S!Z9'' = Some (Suc (Suc (Suc (Suc (Suc 0)))))"
    and h3: "Suc (Suc (Suc (Suc (Suc 0)))) \<notin> set (nodes (dep_graph spec_with_Z9))"
    by (simp_all add: spec_with_Z9_eq cell_map_get_def)
  have t: "ten = Suc (Suc (Suc (Suc (Suc (Suc (Suc (Suc (Suc (Suc 0)))))))))"
    by (simp add: ten_def)
  note w = walk_inputs_absent [where rest = "[]" and needed = "[]" and addr = "''S!Z9''"]
  have a: "walk_inputs ten [''S!C1''] [''S!Z9''] [] spec_graph =
       Inr ([], spec_graph\<lparr>log_records := log_records spec_graph @
               [Log WARNING ''Address {} not found in cell_map'' [AStr ''S!Z9'']]\<rparr>)"
    using w [where c = spec_graph and n = ten and outs = "[''S!C1'']", THEN conjunct1] h1
    by (simp add: return_def)
  have b: "walk_inputs ten [''S!C1''] [''S!Z9''] [] spec_with_Z9 = Inl ValueError"
    using w [where c = spec_with_Z9 and outs = "[''S!C1'']"
        and r = "Suc (Suc (Suc (Suc (Suc 0))))", THEN conjunct2] h2 h3
    unfolding t by simp
  have c: "walk_inputs ten [''S!C1'', ''S!Z9''] [''S!Z9''] [] spec_with_Z9 = Inr ([], spec_with_Z9)"
    using w [where c = spec_with_Z9 and outs = "[''S!C1'', ''S!Z9'']"
        and r = "Suc (Suc (Suc (Suc (Suc 0))))", THEN conjunct2] h2 h3
    unfolding t by simp
  from h1 h2 h3 a b c show ?thesis by simp
qed

text \<open>
  C6 as stated fails in both directions. \<open>Z9\<close> is not in the graph and is given as an
  input and as an output: \<open>trim_graph\<close> returns without an error. \<open>Z9\<close> is in \<open>cell_map\<close>
  but not in the dependency graph and is given as an input only: \<open>trim_graph\<close> raises
  \<open>ValueError\<close>.
\<close>

theorem trim_graph_absent_input_counterexample:
  "\<not> in_cell_map spec_graph ''S!Z9''
   \<and> map_sum id fst (trim_graph ten spec_env [''S!Z9''] [''S!C1'', ''S!Z9''] spec_graph) = Inr ()
   \<and> trim_graph ten spec_env [''S!Z9''] [''S!C1''] spec_with_Z9 = Inl ValueError"
  unfolding spec_graph_def example_graph_eq spec_with_Z9_eq
  by (simp add: trim_graph_def trim_built_def run_defs spec_env_def example_env_def example_sheet_def
      example_compile_def ten_def del: methods_at.simps cong: weak_congs)

end
